theory Spec2Isabelle
  imports Main "HOL-Library.Sublist"
begin

section \<open>JavaScript strings\<close>

text \<open>
  A string of the program is the list of its code units. HOL's \<open>char\<close> has 256
  values, so the model covers the strings whose code units are below 256 (ASCII and
  Latin-1); every URL, path and Git output of the claims is of that kind.
\<close>

text \<open>
  \<^verbatim>\<open>String.prototype.trim\<close> removes white space and line terminators from both ends.
  Below 256 these are TAB, LF, VT, FF, CR, SPACE and NBSP.
\<close>

definition isWhiteSpace :: "char \<Rightarrow> bool" where
  "isWhiteSpace c =
     (c = CHR 0x09 \<or> c = CHR 0x0A \<or> c = CHR 0x0B \<or> c = CHR 0x0C \<or> c = CHR 0x0D
      \<or> c = CHR 0x20 \<or> c = CHR 0xA0)"

definition trim :: "string \<Rightarrow> string" where
  "trim s = rev (dropWhile isWhiteSpace (rev (dropWhile isWhiteSpace s)))"

text \<open>
  \<^verbatim>\<open>s.split(c)\<close> for a separator of one code unit: the pieces between the
  separators, in order; there is always at least one piece (\<^verbatim>\<open>''.split('\n')\<close> is
  \<^verbatim>\<open>['']\<close>).
\<close>

fun split_js :: "char \<Rightarrow> string \<Rightarrow> string list" where
  "split_js c [] = [[]]"
| "split_js c (x # xs) =
     (if x = c then [] # split_js c xs
      else (case split_js c xs of
              [] \<Rightarrow> [[x]]
            | w # ws \<Rightarrow> (x # w) # ws))"

text \<open>\<^verbatim>\<open>lines.join(sep)\<close>.\<close>

fun join_js :: "string \<Rightarrow> string list \<Rightarrow> string" where
  "join_js sep [] = []"
| "join_js sep [l] = l"
| "join_js sep (l # ls) = l @ sep @ join_js sep ls"

section \<open>Errors, effects and the collaborators\<close>

text \<open>
  Every \<^verbatim>\<open>throw\<close> of the source is a value: \<open>Error m\<close> is \<^verbatim>\<open>new Error(m)\<close> (also
  what the subprocess utility throws), \<open>AlreadyReportedError\<close> the sentinel class of
  the same name.
\<close>

datatype error = Error string | AlreadyReportedError

fun message :: "error \<Rightarrow> string" where
  "message (Error m) = m"
| "message AlreadyReportedError = ''An error occurred.''"

text \<open>
  The effects the class has on the outside world, in the order they happen:
  a line on the console, a warning line on the terminal collaborator, a Git
  subprocess whose output is captured (path, arguments, working directory), the
  minimum-version diagnostic, and a Git subprocess spawned with its output ignored.
\<close>

datatype event =
    ConsoleLog string
  | TerminalWarningLine string
  | Exec string "string list" string
  | EnsureGitMinimumVersion string
  | SpawnSync string "string list"

text \<open>\<^verbatim>\<open>IResultOrError<TResult>\<close>: both fields are optional in the source.\<close>

record 'a IResultOrError =
  error :: "error option"
  result :: "'a option"

record RushConfiguration =
  repositoryUrls :: "string list"
  repositoryDefaultBranch :: string
  repositoryDefaultFullyQualifiedRemoteBranch :: string
  rushJsonFolder :: string
  gitTagSeparator :: "string option"

text \<open>The fields of \<^verbatim>\<open>git-repo-info\<close>'s result that the class reads.\<close>

record GitRepoInfo =
  sha :: "string option"
  root :: string
  commonGitDir :: "string option"
  worktreeGitDir :: "string option"

text \<open>The fields of \<^verbatim>\<open>url.parse\<close>'s result that the class reads; each may be null.\<close>

record UrlWithStringQuery =
  protocol :: "string option"
  host :: "string option"
  pathname :: "string option"

text \<open>
  The collaborators, none of them part of the class: the environment override and the
  PATH search for the Git binary, the subprocess utility (captured output or a thrown
  error), the minimum-version check (\<open>None\<close> when it returns, \<open>Some e\<close> when it
  throws), the exit status of a spawned process (\<open>None\<close> for \<^verbatim>\<open>null\<close>),
  \<^verbatim>\<open>gitInfo()\<close>, \<^verbatim>\<open>Path.isUnderOrEqual\<close>, \<^verbatim>\<open>path.resolve\<close> and \<^verbatim>\<open>path.join\<close>,
  \<^verbatim>\<open>url.parse\<close>, \<^verbatim>\<open>String.prototype.toUpperCase\<close>, the email policy's example
  lines, \<^verbatim>\<open>colors.yellow\<close> and \<^verbatim>\<open>os.EOL\<close>. Each is a function of its arguments.
\<close>

record world =
  gitBinaryPath :: "string option"
  tryResolve :: "string \<Rightarrow> string option"
  executeCommandAndCaptureOutput :: "string \<Rightarrow> string list \<Rightarrow> string \<Rightarrow> error + string"
  ensureGitMinimumVersion :: "string \<Rightarrow> error option"
  spawnSync :: "string \<Rightarrow> string list \<Rightarrow> int option"
  gitInfo :: "error + GitRepoInfo"
  isUnderOrEqual :: "string \<Rightarrow> string \<Rightarrow> bool"
  path_resolve :: "string \<Rightarrow> string \<Rightarrow> string"
  path_join :: "string \<Rightarrow> string \<Rightarrow> string"
  url_parse :: "string \<Rightarrow> error + UrlWithStringQuery"
  toUpperCase :: "string \<Rightarrow> string"
  getEmailExampleLines :: "RushConfiguration \<Rightarrow> string list"
  yellow :: "string \<Rightarrow> string"
  EOL :: string

text \<open>
  The class \<^verbatim>\<open>Git\<close>: its configuration and its six private fields, and, beside
  them, the trace of the effects so far (oldest first).
\<close>

record Git =
  rushConfiguration :: RushConfiguration
  m_checkedGitPath :: bool
  m_gitPath :: "string option"
  m_checkedGitInfo :: bool
  m_gitInfo :: "GitRepoInfo option"
  m_gitEmailResult :: "string IResultOrError option"
  m_gitHooksPath :: "string IResultOrError option"
  events :: "event list"

text \<open>The object right after \<^verbatim>\<open>new Git(rushConfiguration)\<close>.\<close>

definition new_Git :: "RushConfiguration \<Rightarrow> Git" where
  "new_Git c =
     \<lparr>rushConfiguration = c, m_checkedGitPath = False, m_gitPath = None,
      m_checkedGitInfo = False, m_gitInfo = None, m_gitEmailResult = None,
      m_gitHooksPath = None, events = []\<rparr>"

text \<open>
  A call of a method is a function from the object to its outcome (\<open>Inl\<close> the thrown
  error) and the object afterwards; a throw keeps the fields written before it.
\<close>

type_synonym 'a call = "Git \<Rightarrow> (error + 'a) \<times> Git"

definition returnM :: "'a \<Rightarrow> 'a call" where
  "returnM v g = (Inr v, g)"

definition throwM :: "error \<Rightarrow> 'a call" where
  "throwM e g = (Inl e, g)"

definition bindM :: "'a call \<Rightarrow> ('a \<Rightarrow> 'b call) \<Rightarrow> 'b call" where
  "bindM m f g = (case m g of (Inl e, g') \<Rightarrow> (Inl e, g') | (Inr v, g') \<Rightarrow> f v g')"

definition emit :: "event \<Rightarrow> unit call" where
  "emit e g = (Inr (), g\<lparr>events := events g @ [e]\<rparr>)"

text \<open>\<^verbatim>\<open>try { m } catch (e) { h(e) }\<close>.\<close>

definition tryCatch :: "'a call \<Rightarrow> (error \<Rightarrow> 'a call) \<Rightarrow> 'a call" where
  "tryCatch m h g = (case m g of (Inl e, g') \<Rightarrow> h e g' | (Inr v, g') \<Rightarrow> (Inr v, g'))"

text \<open>A string that may be undefined is truthy when it is defined and not empty.\<close>

fun truthy :: "string option \<Rightarrow> bool" where
  "truthy None = False"
| "truthy (Some s) = (s \<noteq> [])"

section \<open>The Git binary and the subprocess primitive\<close>

text \<open>The getter \<^verbatim>\<open>gitPath\<close>: the override, or else the PATH search, resolved once.\<close>

definition gitPath :: "world \<Rightarrow> string option call" where
  "gitPath w g =
     (if \<not> m_checkedGitPath g
      then (let p = (if truthy (gitBinaryPath w) then gitBinaryPath w
                     else tryResolve w ''git'');
                g' = g\<lparr>m_gitPath := p, m_checkedGitPath := True\<rparr>
            in (Inr (m_gitPath g'), g'))
      else (Inr (m_gitPath g), g))"

definition getGitPathOrThrow :: "world \<Rightarrow> string call" where
  "getGitPathOrThrow w =
     bindM (gitPath w) (\<lambda>p.
       case p of
         None \<Rightarrow> throwM (Error ''Git is not present'')
       | Some q \<Rightarrow> if q = [] then throwM (Error ''Git is not present'') else returnM q)"

definition isGitPresent :: "world \<Rightarrow> bool call" where
  "isGitPresent w = bindM (gitPath w) (\<lambda>p. returnM (truthy p))"

text \<open>
  \<^verbatim>\<open>_executeGitCommandAndCaptureOutput\<close>: the working directory defaults to the
  folder of rush.json; when the command throws, the minimum-version check runs and,
  unless it throws itself, the command's error is thrown again.
\<close>

definition priv_executeGitCommandAndCaptureOutput ::
    "world \<Rightarrow> string \<Rightarrow> string list \<Rightarrow> string option \<Rightarrow> string call" where
  "priv_executeGitCommandAndCaptureOutput w gp args repositoryRoot g =
     (let cwd = (case repositoryRoot of
                   None \<Rightarrow> rushJsonFolder (rushConfiguration g)
                 | Some r \<Rightarrow> r)
      in bindM (emit (Exec gp args cwd)) (\<lambda>_.
           case executeCommandAndCaptureOutput w gp args cwd of
             Inr out \<Rightarrow> returnM out
           | Inl e \<Rightarrow>
               bindM (emit (EnsureGitMinimumVersion gp)) (\<lambda>_.
                 case ensureGitMinimumVersion w gp of
                   Some e' \<Rightarrow> throwM e'
                 | None \<Rightarrow> throwM e)) g)"

section \<open>Email and hooks path: the memoized queries\<close>

text \<open>
  \<^verbatim>\<open>_tryGetGitEmail\<close>: when the slot is undefined, the query runs and its outcome is
  stored, \<^verbatim>\<open>{ result: output.trim() }\<close> or \<^verbatim>\<open>{ error: e }\<close>; the slot is returned.
  \<^verbatim>\<open>getGitPathOrThrow\<close> stands before the \<^verbatim>\<open>try\<close>: its error is thrown, not stored.
\<close>

definition priv_tryGetGitEmail :: "world \<Rightarrow> string IResultOrError call" where
  "priv_tryGetGitEmail w g =
     (case m_gitEmailResult g of
        Some r \<Rightarrow> returnM r g
      | None \<Rightarrow>
          bindM (getGitPathOrThrow w) (\<lambda>gp.
            bindM
              (tryCatch
                 (bindM (priv_executeGitCommandAndCaptureOutput w gp
                           [''config'', ''user.email''] None)
                    (\<lambda>out. returnM \<lparr>error = None, result = Some (trim out)\<rparr>))
                 (\<lambda>e. returnM \<lparr>error = Some e, result = None\<rparr>))
              (\<lambda>r g'. (Inr r, g'\<lparr>m_gitEmailResult := Some r\<rparr>))) g)"

definition priv_tryGetGitHooksPath :: "world \<Rightarrow> string IResultOrError call" where
  "priv_tryGetGitHooksPath w g =
     (case m_gitHooksPath g of
        Some r \<Rightarrow> returnM r g
      | None \<Rightarrow>
          bindM (getGitPathOrThrow w) (\<lambda>gp.
            bindM
              (tryCatch
                 (bindM (priv_executeGitCommandAndCaptureOutput w gp
                           [''rev-parse'', ''--git-path'', ''hooks''] None)
                    (\<lambda>out. returnM \<lparr>error = None, result = Some (trim out)\<rparr>))
                 (\<lambda>e. returnM \<lparr>error = Some e, result = None\<rparr>))
              (\<lambda>r g'. (Inr r, g'\<lparr>m_gitHooksPath := Some r\<rparr>))) g)"

definition tryGetGitEmail :: "world \<Rightarrow> string option call" where
  "tryGetGitEmail w =
     bindM (priv_tryGetGitEmail w) (\<lambda>emailResult.
       case result emailResult of
         None \<Rightarrow> returnM None
       | Some r \<Rightarrow> if length r > 0 then returnM (Some r) else returnM None)"

definition emailErrorLines :: "error \<Rightarrow> string list" where
  "emailErrorLines e =
     [''Error: '' @ message e,
      ''Unable to determine your Git configuration using this command:'',
      [],
      ''    git config user.email'',
      []]"

definition emailMissingLines :: "string list \<Rightarrow> string list" where
  "emailMissingLines exampleLines =
     [''This operation requires that a Git email be specified.'',
      [],
      ''If you didn'' @ [CHR 0x27] @ ''t configure your email yet, try something like this:'',
      []] @ exampleLines @ [[]]"

definition getGitEmail :: "world \<Rightarrow> string call" where
  "getGitEmail w =
     bindM (priv_tryGetGitEmail w) (\<lambda>emailResult.
       case error emailResult of
         Some e \<Rightarrow>
           bindM (emit (ConsoleLog (join_js (EOL w) (emailErrorLines e))))
             (\<lambda>_. throwM AlreadyReportedError)
       | None \<Rightarrow>
           (case result emailResult of
              Some r \<Rightarrow>
                if length r = 0
                then (\<lambda>g. bindM (emit (ConsoleLog (join_js (EOL w)
                         (emailMissingLines (getEmailExampleLines w (rushConfiguration g))))))
                       (\<lambda>_. throwM AlreadyReportedError) g)
                else returnM r
            | None \<Rightarrow>
                (\<lambda>g. bindM (emit (ConsoleLog (join_js (EOL w)
                         (emailMissingLines (getEmailExampleLines w (rushConfiguration g))))))
                       (\<lambda>_. throwM AlreadyReportedError) g)))"

section \<open>Repository information and the hooks path\<close>

text \<open>
  \<^verbatim>\<open>isPathUnderGitWorkingTree(repoInfo)\<close> with the argument given, as \<^verbatim>\<open>getGitInfo\<close>
  calls it: \<^verbatim>\<open>!!(repoInfo && repoInfo.sha)\<close> when the binary is present.
\<close>

definition isPathUnderGitWorkingTree_of :: "world \<Rightarrow> GitRepoInfo \<Rightarrow> bool call" where
  "isPathUnderGitWorkingTree_of w repoInfo =
     bindM (isGitPresent w) (\<lambda>present.
       if present then returnM (truthy (sha repoInfo)) else returnM False)"

text \<open>\<^verbatim>\<open>getGitInfo\<close>: a throw of \<^verbatim>\<open>gitInfo()\<close> is swallowed; checked once.\<close>

definition getGitInfo :: "world \<Rightarrow> GitRepoInfo option call" where
  "getGitInfo w g =
     (if \<not> m_checkedGitInfo g
      then bindM
             (case gitInfo w of
                Inl ex \<Rightarrow> returnM ()
              | Inr repoInfo \<Rightarrow>
                  bindM (isPathUnderGitWorkingTree_of w repoInfo) (\<lambda>isUnder.
                    if isUnder then (\<lambda>g'. (Inr (), g'\<lparr>m_gitInfo := Some repoInfo\<rparr>))
                    else returnM ()))
             (\<lambda>_ g'. (Inr (m_gitInfo g'), g'\<lparr>m_checkedGitInfo := True\<rparr>)) g
      else (Inr (m_gitInfo g), g))"

definition isPathUnderGitWorkingTree :: "world \<Rightarrow> GitRepoInfo option \<Rightarrow> bool call" where
  "isPathUnderGitWorkingTree w repoInfo =
     bindM (isGitPresent w) (\<lambda>present.
       if present
       then bindM (case repoInfo of None \<Rightarrow> getGitInfo w | Some i \<Rightarrow> returnM (Some i))
              (\<lambda>info. case info of
                         None \<Rightarrow> returnM False
                       | Some i \<Rightarrow> returnM (truthy (sha i)))
       else returnM False)"

definition getHooksFolder :: "world \<Rightarrow> string option call" where
  "getHooksFolder w =
     bindM (getGitInfo w) (\<lambda>repoInfo.
       case repoInfo of
         None \<Rightarrow> returnM None
       | Some i \<Rightarrow>
           (case worktreeGitDir i of
              None \<Rightarrow> returnM None
            | Some d \<Rightarrow> if d = [] then returnM None
                        else returnM (Some (path_join w d ''hooks''))))"

definition hooksErrorLines :: "error \<Rightarrow> string list" where
  "hooksErrorLines e =
     [''Error: '' @ message e,
      ''Unable to determine your Git configuration using this command:'',
      [],
      ''    git rev-parse --git-path hooks'',
      [],
      ''Assuming hooks can still be installed in the default location'']"

definition isHooksPathDefault :: "world \<Rightarrow> bool call" where
  "isHooksPathDefault w =
     bindM (getGitInfo w) (\<lambda>repoInfo.
       case repoInfo of
         None \<Rightarrow> returnM True
       | Some i \<Rightarrow>
           if \<not> truthy (commonGitDir i) then returnM True
           else
             (let defaultHooksPath = path_resolve w (the (commonGitDir i)) ''hooks''
              in bindM (priv_tryGetGitHooksPath w) (\<lambda>hooksResult.
                   case error hooksResult of
                     Some e \<Rightarrow>
                       bindM (emit (ConsoleLog (join_js (EOL w) (hooksErrorLines e))))
                         (\<lambda>_. returnM True)
                   | None \<Rightarrow>
                       if truthy (result hooksResult)
                       then returnM
                              (path_resolve w (root i) (the (result hooksResult))
                               = defaultHooksPath)
                       else returnM True)))"

definition getConfigHooksPath :: "world \<Rightarrow> string call" where
  "getConfigHooksPath w =
     bindM (getGitPathOrThrow w) (\<lambda>gp.
       tryCatch
         (bindM (priv_executeGitCommandAndCaptureOutput w gp
                   [''config'', ''core.hooksPath''] None)
            (\<lambda>out. returnM (trim out)))
         (\<lambda>e. returnM []))"

section \<open>Fetch, merge base and changed files\<close>

text \<open>\<^verbatim>\<open>s.indexOf(c)\<close>, with \<open>None\<close> for -1.\<close>

definition indexOf :: "char \<Rightarrow> string \<Rightarrow> nat option" where
  "indexOf c s = (if c \<in> set s then Some (length (takeWhile (\<lambda>x. x \<noteq> c) s)) else None)"

definition branchFormatMessage :: "string \<Rightarrow> string" where
  "branchFormatMessage remoteBranchName =
     ''Unexpected git remote branch format: '' @ remoteBranchName @ ''. ''
     @ ''Expected branch to be in the <remote>/<branch name> format.''"

definition priv_tryFetchRemoteBranch :: "world \<Rightarrow> string \<Rightarrow> bool call" where
  "priv_tryFetchRemoteBranch w remoteBranchName =
     (case indexOf (CHR ''/'') remoteBranchName of
        None \<Rightarrow> throwM (Error (branchFormatMessage remoteBranchName))
      | Some firstSlashIndex \<Rightarrow>
          (let remoteName = take firstSlashIndex remoteBranchName;
               branchName = drop (firstSlashIndex + 1) remoteBranchName
           in bindM (getGitPathOrThrow w) (\<lambda>gp.
                bindM (emit (SpawnSync gp [''fetch'', remoteName, branchName])) (\<lambda>_.
                  returnM (spawnSync w gp [''fetch'', remoteName, branchName] = Some 0)))))"

definition fetchWarning :: "string \<Rightarrow> string" where
  "fetchWarning remoteBranchName =
     ''Error fetching git remote branch '' @ remoteBranchName
     @ ''. Detected changed files may be incorrect.''"

definition priv_fetchRemoteBranch :: "world \<Rightarrow> string \<Rightarrow> unit call" where
  "priv_fetchRemoteBranch w remoteBranchName =
     bindM (emit (ConsoleLog (''Checking for updates to '' @ remoteBranchName @ ''...''))) (\<lambda>_.
       bindM (priv_tryFetchRemoteBranch w remoteBranchName) (\<lambda>fetchResult.
         if \<not> fetchResult then emit (TerminalWarningLine (fetchWarning remoteBranchName))
         else returnM ()))"

definition mergeBaseArgs :: "string \<Rightarrow> string list" where
  "mergeBaseArgs targetBranch =
     [''--no-optional-locks'', ''merge-base'', ''HEAD'', targetBranch, ''--'']"

definition getMergeBase :: "world \<Rightarrow> string \<Rightarrow> bool \<Rightarrow> string call" where
  "getMergeBase w targetBranch shouldFetch =
     bindM (if shouldFetch then priv_fetchRemoteBranch w targetBranch else returnM ()) (\<lambda>_.
       bindM (getGitPathOrThrow w) (\<lambda>gp.
         bindM (priv_executeGitCommandAndCaptureOutput w gp (mergeBaseArgs targetBranch) None)
           (\<lambda>out. returnM (trim out))))"

definition getBlobContent :: "world \<Rightarrow> string \<Rightarrow> string \<Rightarrow> string call" where
  "getBlobContent w blobSpec repositoryRoot =
     bindM (getGitPathOrThrow w) (\<lambda>gp.
       priv_executeGitCommandAndCaptureOutput w gp
         [''cat-file'', ''blob'', blobSpec, ''--''] (Some repositoryRoot))"

text \<open>
  The callback of \<^verbatim>\<open>map\<close> in \<^verbatim>\<open>getChangedFiles\<close>: a line that is empty, or that is not
  under the prefix, gives \<^verbatim>\<open>undefined\<close>. The callback of \<^verbatim>\<open>filter\<close> keeps the
  defined, non-empty strings.
\<close>

definition changedFileOfLine ::
    "(string \<Rightarrow> string \<Rightarrow> bool) \<Rightarrow> string option \<Rightarrow> string \<Rightarrow> string option" where
  "changedFileOfLine isUnder pathPrefix line =
     (if line \<noteq> []
      then (let trimmedLine = trim line
            in if \<not> truthy pathPrefix \<or> isUnder trimmedLine (the pathPrefix)
               then Some trimmedLine else None)
      else None)"

definition keptLine :: "string option \<Rightarrow> bool" where
  "keptLine line = (case line of None \<Rightarrow> False | Some l \<Rightarrow> l \<noteq> [] \<and> length l > 0)"

definition changedFilesOfOutput ::
    "(string \<Rightarrow> string \<Rightarrow> bool) \<Rightarrow> string option \<Rightarrow> string \<Rightarrow> string list" where
  "changedFilesOfOutput isUnder pathPrefix out =
     map the (filter keptLine
       (map (changedFileOfLine isUnder pathPrefix) (split_js (CHR 0x0A) out)))"

definition changedFilesArgs :: "string \<Rightarrow> string list" where
  "changedFilesArgs targetBranch =
     [''diff'', targetBranch @ ''...'', ''--name-only'', ''--no-renames'', ''--diff-filter=A'']"

definition getChangedFiles ::
    "world \<Rightarrow> string \<Rightarrow> bool \<Rightarrow> string option \<Rightarrow> string list call" where
  "getChangedFiles w targetBranch skipFetch pathPrefix =
     bindM (if \<not> skipFetch then priv_fetchRemoteBranch w targetBranch else returnM ()) (\<lambda>_.
       bindM (getGitPathOrThrow w) (\<lambda>gp.
         bindM (priv_executeGitCommandAndCaptureOutput w gp (changedFilesArgs targetBranch) None)
           (\<lambda>out. returnM (changedFilesOfOutput (isUnderOrEqual w) pathPrefix out))))"

section \<open>Uncommitted changes\<close>

definition priv_getUntrackedChanges :: "world \<Rightarrow> string list call" where
  "priv_getUntrackedChanges w =
     bindM (getGitPathOrThrow w) (\<lambda>gp.
       bindM (priv_executeGitCommandAndCaptureOutput w gp
                [''ls-files'', ''--exclude-standard'', ''--others''] None)
         (\<lambda>out. returnM (split_js (CHR 0x0A) (trim out))))"

definition priv_getDiffOnHEAD :: "world \<Rightarrow> string list call" where
  "priv_getDiffOnHEAD w =
     bindM (getGitPathOrThrow w) (\<lambda>gp.
       bindM (priv_executeGitCommandAndCaptureOutput w gp
                [''diff'', ''HEAD'', ''--name-only''] None)
         (\<lambda>out. returnM (split_js (CHR 0x0A) (trim out))))"

definition getUncommittedChanges :: "world \<Rightarrow> string list call" where
  "getUncommittedChanges w =
     bindM (priv_getUntrackedChanges w) (\<lambda>untracked.
       bindM (priv_getDiffOnHEAD w) (\<lambda>diffOnHEAD.
         returnM (filter (\<lambda>change. length (trim change) > 0) (untracked @ diffOnHEAD))))"

definition hasUncommittedChanges :: "world \<Rightarrow> bool call" where
  "hasUncommittedChanges w =
     bindM (getUncommittedChanges w) (\<lambda>changes. returnM (length changes > 0))"

definition getTagSeparator :: "Git \<Rightarrow> string" where
  "getTagSeparator g =
     (if truthy (gitTagSeparator (rushConfiguration g))
      then the (gitTagSeparator (rushConfiguration g)) else ''_'')"

section \<open>URL normalization\<close>

text \<open>
  In a regular expression without flags, \<^verbatim>\<open>.\<close> matches every code unit but a line
  terminator; below 256 these are LF and CR.
\<close>

definition isLineTerminator :: "char \<Rightarrow> bool" where
  "isLineTerminator c = (c = CHR 0x0A \<or> c = CHR 0x0D)"

text \<open>
  \<^verbatim>\<open>/^(?:[^@:\/]+\@)?([^:\/]{2,})\:((?!\/\/).+)$/.exec(s)\<close>, as its two groups.
  Neither the optional user nor the host may hold a colon or a slash, so the colon of
  the pattern is the first colon of \<open>s\<close> and no slash stands before it; the path is
  all that follows the colon: not empty, without a line terminator, not starting with
  two slashes. The optional group is tried first: its \<^verbatim>\<open>[^@:\/]+\<close> runs up to the
  first \<^verbatim>\<open>@\<close>, which must not be the first code unit, and the host is what stands
  between that \<^verbatim>\<open>@\<close> and the colon, two code units or more. When that fails, the
  group is skipped and the host is all that stands before the colon, two code units or
  more (an \<^verbatim>\<open>@\<close> included).
\<close>

definition scpLikeSyntaxMatch :: "string \<Rightarrow> (string \<times> string) option" where
  "scpLikeSyntaxMatch s =
     (let beforeColon = takeWhile (\<lambda>c. c \<noteq> CHR '':'') s;
          fromColon = dropWhile (\<lambda>c. c \<noteq> CHR '':'') s;
          path = drop 1 fromColon;
          user = takeWhile (\<lambda>c. c \<noteq> CHR ''@'') beforeColon;
          afterAt = drop (length user + 1) beforeColon
      in if fromColon = [] \<or> CHR ''/'' \<in> set beforeColon then None
         else if path = [] \<or> list_ex isLineTerminator path \<or> take 2 path = ''//'' then None
         else if user \<noteq> [] \<and> length user < length beforeColon \<and> 2 \<le> length afterAt
              then Some (afterAt, path)
         else if 2 \<le> length beforeColon then Some (beforeColon, path)
         else None)"

definition recognizedProtocols :: "string list" where
  "recognizedProtocols =
     [''http:'', ''https:'', ''ssh:'', ''ftp:'', ''ftps:'', ''git:'', ''git+http:'',
      ''git+https:'', ''git+ssh:'', ''git+ftp:'', ''git+ftps:'']"

text \<open>A field that is null prints as \<^verbatim>\<open>null\<close> in a template literal.\<close>

fun inTemplate :: "string option \<Rightarrow> string" where
  "inTemplate None = ''null''"
| "inTemplate (Some s) = s"

text \<open>
  \<^verbatim>\<open>result.replace(/.git\/?$/, '')\<close>: the pattern matches at the end only, four code
  units (any code unit but a line terminator, then \<^verbatim>\<open>git\<close>) or five (the same and a
  slash); a string ends in at most one of the two ways, and the match is removed.
\<close>

definition stripGitSuffix :: "string \<Rightarrow> string" where
  "stripGitSuffix r =
     (let n = length r
      in if 5 \<le> n \<and> drop (n - 4) r = ''git/'' \<and> \<not> isLineTerminator (r ! (n - 5))
         then take (n - 5) r
         else if 4 \<le> n \<and> drop (n - 3) r = ''git'' \<and> \<not> isLineTerminator (r ! (n - 4))
         then take (n - 4) r
         else r)"

text \<open>
  \<^verbatim>\<open>Git.normalizeGitUrlForComparison\<close>, with \<^verbatim>\<open>url.parse\<close> as the parameter \<open>parse\<close>
  (\<open>Inl\<close> when it throws, and then the method throws). The pattern is run on
  \<^verbatim>\<open>gitUrl\<close> itself, not on the trimmed string.
\<close>

definition scpRewrite :: "string \<Rightarrow> string \<Rightarrow> string" where
  "scpRewrite h path =
     (if take 1 path = ''/'' then ''https://'' @ h @ path
      else ''https://'' @ h @ ''/'' @ path)"

definition rebuildUrl :: "UrlWithStringQuery \<Rightarrow> string" where
  "rebuildUrl parsedUrl =
     ''https://'' @ inTemplate (host parsedUrl) @ inTemplate (pathname parsedUrl)"

definition normalizeGitUrlForComparison ::
    "(string \<Rightarrow> error + UrlWithStringQuery) \<Rightarrow> string \<Rightarrow> error + string" where
  "normalizeGitUrlForComparison parse gitUrl =
     (let result0 = trim gitUrl;
          result1 = (case scpLikeSyntaxMatch gitUrl of
                       Some (h, path) \<Rightarrow> scpRewrite h path
                     | None \<Rightarrow> result0)
      in case parse result1 of
           Inl e \<Rightarrow> Inl e
         | Inr parsedUrl \<Rightarrow>
             (let result2 = (if protocol parsedUrl \<in> Some ` set recognizedProtocols
                             then rebuildUrl parsedUrl
                             else result1)
              in Inr (stripGitSuffix result2)))"

section \<open>The default remote branch\<close>

text \<open>\<^verbatim>\<open>Git.normalizeGitUrlForComparison(u).toUpperCase()\<close>, for the comparison.\<close>

definition comparisonKey :: "world \<Rightarrow> string \<Rightarrow> error + string" where
  "comparisonKey w u =
     (case normalizeGitUrlForComparison (url_parse w) u of
        Inl e \<Rightarrow> Inl e
      | Inr n \<Rightarrow> Inr (toUpperCase w n))"

text \<open>The loop that fills \<^verbatim>\<open>normalizedRepositoryUrls\<close>; the first throw ends it.\<close>

fun normalizeAll :: "world \<Rightarrow> string list \<Rightarrow> error + string list" where
  "normalizeAll w [] = Inr []"
| "normalizeAll w (repositoryUrl # urls) =
     (case comparisonKey w repositoryUrl of
        Inl e \<Rightarrow> Inl e
      | Inr k \<Rightarrow> (case normalizeAll w urls of
                    Inl e \<Rightarrow> Inl e
                  | Inr ks \<Rightarrow> Inr (k # ks)))"

text \<open>
  The callback of \<^verbatim>\<open>filter\<close> in \<^verbatim>\<open>getRemoteDefaultBranch\<close> runs a Git command for
  every remote name that is not empty; a throw of one of them ends the method.
\<close>

definition remoteMatches :: "world \<Rightarrow> string \<Rightarrow> string list \<Rightarrow> string \<Rightarrow> bool call" where
  "remoteMatches w gp normalizedRepositoryUrls remoteName =
     (if remoteName \<noteq> []
      then bindM (priv_executeGitCommandAndCaptureOutput w gp
                    [''remote'', ''get-url'', remoteName] None) (\<lambda>out.
             (let remoteUrl = trim out
              in if remoteUrl = [] then returnM False
                 else (case comparisonKey w remoteUrl of
                         Inl e \<Rightarrow> throwM e
                       | Inr normalizedRemoteUrl \<Rightarrow>
                           returnM (normalizedRemoteUrl \<in> set normalizedRepositoryUrls))))
      else returnM False)"

fun filterRemotes :: "world \<Rightarrow> string \<Rightarrow> string list \<Rightarrow> string list \<Rightarrow> string list call" where
  "filterRemotes w gp urls [] = returnM []"
| "filterRemotes w gp urls (remoteName # names) =
     bindM (remoteMatches w gp urls remoteName) (\<lambda>keep.
       bindM (filterRemotes w gp urls names) (\<lambda>kept.
         returnM (if keep then remoteName # kept else kept)))"

definition noRemoteMessage :: "string list \<Rightarrow> string" where
  "noRemoteMessage urls =
     (if length urls > 1
      then ''Unable to find a git remote matching one of the repository URLs (''
           @ join_js '', '' urls @ ''). ''
      else ''Unable to find a git remote matching the repository URL (''
           @ (case urls of [] \<Rightarrow> ''undefined'' | u # _ \<Rightarrow> u) @ ''). '')"

definition noUrlWarning :: string where
  "noUrlWarning =
     ''A git remote URL has not been specified in rush.json. ''
     @ ''Setting the baseline remote URL is recommended.''"

definition getRemoteDefaultBranch :: "world \<Rightarrow> string call" where
  "getRemoteDefaultBranch w g =
     (let urls = repositoryUrls (rushConfiguration g)
      in if length urls > 0
         then bindM (getGitPathOrThrow w) (\<lambda>gp.
                bindM (priv_executeGitCommandAndCaptureOutput w gp [''remote''] None) (\<lambda>out.
                  case normalizeAll w urls of
                    Inl e \<Rightarrow> throwM e
                  | Inr normalizedRepositoryUrls \<Rightarrow>
                      bindM (filterRemotes w gp normalizedRepositoryUrls
                               (split_js (CHR 0x0A) (trim out))) (\<lambda>matchingRemotes.
                        case matchingRemotes of
                          first # others \<Rightarrow>
                            bindM (if length matchingRemotes > 1
                                   then emit (ConsoleLog
                                     (''More than one git remote matches the repository URL. ''
                                      @ ''Using the first remote ('' @ first @ '').''))
                                   else returnM ()) (\<lambda>_.
                              returnM (first @ ''/''
                                       @ repositoryDefaultBranch (rushConfiguration g)))
                        | [] \<Rightarrow>
                            bindM (emit (ConsoleLog (yellow w
                                     (noRemoteMessage urls
                                      @ ''Detected changes are likely to be incorrect.''))))
                              (\<lambda>_. returnM (repositoryDefaultFullyQualifiedRemoteBranch
                                               (rushConfiguration g)))))) g
         else bindM (emit (ConsoleLog (yellow w noUrlWarning)))
                (\<lambda>_. returnM (repositoryDefaultFullyQualifiedRemoteBranch
                                 (rushConfiguration g))) g)"

section \<open>A model of the platform's URL parser\<close>

text \<open>
  \<^verbatim>\<open>url.parse\<close> is Node.js's legacy URL parser, not code of the repository; the
  theorems below take it as the parameter \<open>parse\<close>. For the evaluation of concrete
  inputs the parser is modelled here after its documented algorithm, for the three
  fields the class reads: white space is trimmed; backslashes before the query become
  slashes; a string that is just a path is returned as \<^verbatim>\<open>pathname\<close>; the scheme is
  taken off and lower-cased; after two slashes, or after a scheme that is not one of
  the slashed ones, a host follows, up to the first \<^verbatim>\<open>/\<close>, \<^verbatim>\<open>?\<close> or \<^verbatim>\<open>#\<close>, with the
  credentials before its last \<^verbatim>\<open>@\<close> removed (a malformed percent escape in them
  throws); \<^verbatim>\<open>host\<close> is the lower-cased host name and the port; what follows is
  escaped and, up to \<^verbatim>\<open>?\<close> or \<^verbatim>\<open>#\<close>, is the \<^verbatim>\<open>pathname\<close>. Not modelled: the
  conversion of host names with code units above 127 to Punycode, and the check that
  percent escapes in the credentials decode to UTF-8.
\<close>

definition lowerLetters :: string where
  "lowerLetters = ''abcdefghijklmnopqrstuvwxyz''"

definition upperLetters :: string where
  "upperLetters = ''ABCDEFGHIJKLMNOPQRSTUVWXYZ''"

definition digits :: string where
  "digits = ''0123456789''"

definition toLowerChar :: "char \<Rightarrow> char" where
  "toLowerChar c = (case map_of (zip upperLetters lowerLetters) c of Some l \<Rightarrow> l | None \<Rightarrow> c)"

definition toUpperChar :: "char \<Rightarrow> char" where
  "toUpperChar c = (case map_of (zip lowerLetters upperLetters) c of Some u \<Rightarrow> u | None \<Rightarrow> c)"

definition isUrlSpace :: "char \<Rightarrow> bool" where
  "isUrlSpace c =
     (c = CHR 0x20 \<or> c = CHR 0x09 \<or> c = CHR 0x0D \<or> c = CHR 0x0A \<or> c = CHR 0x0C
      \<or> c = CHR 0xA0)"

fun convertBackslashes :: "string \<Rightarrow> string" where
  "convertBackslashes [] = []"
| "convertBackslashes (c # cs) =
     (if c = CHR ''?'' \<or> c = CHR ''#'' then c # cs
      else (if c = CHR 0x5C then CHR ''/'' else c) # convertBackslashes cs)"

definition simplePathMatch :: "string \<Rightarrow> string option" where
  "simplePathMatch r =
     (let slashes = length (takeWhile (\<lambda>c. c = CHR ''/'') r)
      in if (slashes = 1 \<or> slashes = 2) \<and> \<not> list_ex isWhiteSpace r
         then Some (takeWhile (\<lambda>c. c \<noteq> CHR ''?'') r) else None)"

definition isProtocolChar :: "char \<Rightarrow> bool" where
  "isProtocolChar c = (c \<in> set (lowerLetters @ upperLetters @ digits @ ''.+-''))"

definition protocolMatch :: "string \<Rightarrow> (string \<times> string) option" where
  "protocolMatch r =
     (let name = takeWhile isProtocolChar r;
          after = drop (length name) r
      in if name \<noteq> [] \<and> take 1 after = '':'' then Some (name @ '':'', drop 1 after)
         else None)"

definition hostPatternTest :: "string \<Rightarrow> bool" where
  "hostPatternTest r =
     (let a = takeWhile (\<lambda>c. c \<noteq> CHR ''@'' \<and> c \<noteq> CHR ''/'') (drop 2 r);
          b = drop (2 + length a) r
      in take 2 r = ''//'' \<and> a \<noteq> [] \<and> take 1 b = ''@''
         \<and> (case drop 1 b of [] \<Rightarrow> False | c # _ \<Rightarrow> c \<noteq> CHR ''@'' \<and> c \<noteq> CHR ''/''))"

definition hostlessProtocol :: "string \<Rightarrow> bool" where
  "hostlessProtocol p = (p = ''javascript:'')"

definition slashedProtocol :: "string \<Rightarrow> bool" where
  "slashedProtocol p =
     (p \<in> set [''http:'', ''https:'', ''ftp:'', ''gopher:'', ''file:'', ''ws:'', ''wss:''])"

definition isHostEnding :: "char \<Rightarrow> bool" where
  "isHostEnding c = (c = CHR ''#'' \<or> c = CHR ''/'' \<or> c = CHR ''?'')"

definition isNeverHost :: "char \<Rightarrow> bool" where
  "isNeverHost c =
     (c \<in> set [CHR 0x09, CHR 0x0A, CHR 0x0D, CHR 0x20, CHR 0x22, CHR ''%'', CHR 0x27,
                CHR '';'', CHR ''<'', CHR ''>'', CHR 0x5C, CHR ''^'', CHR 0x60, CHR ''{'',
                CHR ''|'', CHR ''}''])"

definition splitHost :: "string \<Rightarrow> string option \<times> string \<times> string" where
  "splitHost r =
     (let scanned = takeWhile (\<lambda>c. \<not> isHostEnding c) r;
          hasAt = (CHR ''@'' \<in> set scanned);
          auth = rev (drop 1 (dropWhile (\<lambda>c. c \<noteq> CHR ''@'') (rev scanned)));
          start = (if hasAt then length auth + 1 else 0);
          h = takeWhile (\<lambda>c. \<not> isNeverHost c) (drop start scanned)
      in (if hasAt then Some auth else None, h, drop (start + length h) r))"

definition isHexDigit :: "char \<Rightarrow> bool" where
  "isHexDigit c = (c \<in> set (digits @ ''abcdefABCDEF''))"

fun malformedEscape :: "string \<Rightarrow> bool" where
  "malformedEscape [] = False"
| "malformedEscape (c # cs) =
     (if c = CHR ''%''
      then (case cs of
              a # b # rest \<Rightarrow> \<not> (isHexDigit a \<and> isHexDigit b) \<or> malformedEscape cs
            | _ \<Rightarrow> True)
      else malformedEscape cs)"

definition parseHost :: "string \<Rightarrow> string \<times> string" where
  "parseHost h =
     (let ds = takeWhile (\<lambda>c. c \<in> set digits) (rev h);
          front = drop (length ds) (rev h)
      in if take 1 front = '':'' then (rev (drop 1 front), rev ds) else (h, []))"

definition isHostnameChar :: "char \<Rightarrow> bool" where
  "isHostnameChar c =
     (c \<in> set (lowerLetters @ upperLetters @ digits @ ''.-+_'') \<or> 127 < (of_char c :: nat))"

definition isIpv6Hostname :: "string \<Rightarrow> bool" where
  "isIpv6Hostname h = (h \<noteq> [] \<and> hd h = CHR ''['' \<and> last h = CHR '']'')"

definition autoEscapeChar :: "char \<Rightarrow> string" where
  "autoEscapeChar c =
     (case map_of
        [(CHR ''{'', ''%7B''), (CHR ''}'', ''%7D''), (CHR ''|'', ''%7C''), (CHR 0x5C, ''%5C''),
         (CHR ''^'', ''%5E''), (CHR 0x60, ''%60''), (CHR ''<'', ''%3C''), (CHR ''>'', ''%3E''),
         (CHR 0x22, ''%22''), (CHR 0x20, ''%20''), (CHR 0x0D, ''%0D''), (CHR 0x0A, ''%0A''),
         (CHR 0x09, ''%09''), (CHR 0x27, ''%27'')] c of
        Some e \<Rightarrow> e
      | None \<Rightarrow> [c])"

definition nodeUrlParse :: "string \<Rightarrow> error + UrlWithStringQuery" where
  "nodeUrlParse url =
     (let trimmed = rev (dropWhile isUrlSpace (rev (dropWhile isUrlSpace url)));
          rest0 = convertBackslashes trimmed;
          simplePath = (if CHR ''#'' \<in> set trimmed then None else simplePathMatch rest0)
      in case simplePath of
           Some p \<Rightarrow> Inr \<lparr>protocol = None, host = None, pathname = Some p\<rparr>
         | None \<Rightarrow>
            (let proto = protocolMatch rest0;
                 lowerProto = map_option (\<lambda>(p, _). map toLowerChar p) proto;
                 rest1 = (case proto of Some (_, r) \<Rightarrow> r | None \<Rightarrow> rest0);
                 hostless = (case lowerProto of Some p \<Rightarrow> hostlessProtocol p | None \<Rightarrow> False);
                 slashed = (case lowerProto of Some p \<Rightarrow> slashedProtocol p | None \<Rightarrow> False);
                 hasProto = (case proto of Some _ \<Rightarrow> True | None \<Rightarrow> False);
                 slashes = ((hasProto \<or> hostPatternTest rest1) \<and> take 2 rest1 = ''//'');
                 rest2 = (if slashes \<and> \<not> hostless then drop 2 rest1 else rest1)
             in if \<not> hostless \<and> (slashes \<or> (hasProto \<and> \<not> slashed))
                then (case splitHost rest2 of (auth, rawHost, rest3) \<Rightarrow>
                  if (case auth of Some a \<Rightarrow> malformedEscape a | None \<Rightarrow> False)
                  then Inl (Error ''URI malformed'')
                  else
                   (let (hostname0, port) = parseHost rawHost;
                        ipv6 = isIpv6Hostname hostname0;
                        hostname1 = (if ipv6 then hostname0 else takeWhile isHostnameChar hostname0);
                        invalid = (if ipv6 then [] else dropWhile isHostnameChar hostname0);
                        rest4 = (if invalid = [] then rest3 else ''/'' @ invalid @ rest3);
                        hostname2 = (if length hostname1 > 255 then []
                                     else map toLowerChar hostname1);
                        h = hostname2 @ (if port = [] then [] else '':'' @ port);
                        rest5 = (if ipv6 \<and> take 1 rest4 \<noteq> ''/'' then ''/'' @ rest4 else rest4);
                        rest6 = concat (map autoEscapeChar rest5);
                        seg = takeWhile (\<lambda>c. c \<noteq> CHR ''?'' \<and> c \<noteq> CHR ''#'') rest6;
                        path0 = (if seg = [] then None else Some seg);
                        path1 = (if slashed \<and> hostname2 \<noteq> [] \<and> path0 = None
                                 then Some ''/'' else path0)
                    in Inr \<lparr>protocol = lowerProto, host = Some h, pathname = path1\<rparr>))
                else
                  (let rest6 = (if hostless then rest2 else concat (map autoEscapeChar rest2));
                       seg = takeWhile (\<lambda>c. c \<noteq> CHR ''?'' \<and> c \<noteq> CHR ''#'') rest6
                   in Inr \<lparr>protocol = lowerProto, host = None,
                           pathname = (if seg = [] then None else Some seg)\<rparr>)))"

section \<open>Example collaborators\<close>

text \<open>
  A configuration and collaborators on which the methods can be run: Git at
  \<^verbatim>\<open>/usr/bin/git\<close>, a table of command outputs, a fixed exit status for the fetch.
\<close>

definition exampleConfiguration :: RushConfiguration where
  "exampleConfiguration =
     \<lparr>repositoryUrls = [''https://github.com/org/repo''],
      repositoryDefaultBranch = ''main'',
      repositoryDefaultFullyQualifiedRemoteBranch = ''origin/main'',
      rushJsonFolder = ''/repo'',
      gitTagSeparator = None\<rparr>"

definition outputLines :: "string list \<Rightarrow> string" where
  "outputLines ls = concat (map (\<lambda>l. l @ [CHR 0x0A]) ls)"

definition exampleCommands :: "(string list \<times> (error + string)) list" where
  "exampleCommands =
     [([''config'', ''user.email''], Inr (outputLines [''dev@example.com''])),
      ([''rev-parse'', ''--git-path'', ''hooks''], Inr (outputLines [''.git/hooks''])),
      ([''remote''], Inr (outputLines [''origin'', ''upstream''])),
      ([''remote'', ''get-url'', ''origin''], Inr (outputLines [''git@github.com:org/repo.git''])),
      ([''remote'', ''get-url'', ''upstream''], Inr (outputLines [''https://example.com/other.git''])),
      (mergeBaseArgs ''origin/main'', Inr (outputLines [''0123abc''])),
      (mergeBaseArgs ''main'', Inr (outputLines [''0123abc''])),
      (changedFilesArgs ''main'', Inr (outputLines [''apps/a/new.ts''])),
      (changedFilesArgs ''origin/main'',
         Inr (outputLines [''apps/a/new.ts'', ''libs/b/new.ts'', ''apps/a/other.ts''])),
      ([''ls-files'', ''--exclude-standard'', ''--others''], Inr (outputLines [''a '', ''b''])),
      ([''diff'', ''HEAD'', ''--name-only''], Inr [])]"

definition failingEmailCommands :: "(string list \<times> (error + string)) list" where
  "failingEmailCommands =
     ([''config'', ''user.email''], Inl (Error ''Command failed with exit code 1''))
     # exampleCommands"

definition worldOf :: "(string list \<times> (error + string)) list \<Rightarrow> int option \<Rightarrow> world" where
  "worldOf commands fetchStatus =
     \<lparr>gitBinaryPath = None,
      tryResolve = (\<lambda>name. if name = ''git'' then Some ''/usr/bin/git'' else None),
      executeCommandAndCaptureOutput =
        (\<lambda>gp args cwd. case map_of commands args of
                          Some r \<Rightarrow> r
                        | None \<Rightarrow> Inl (Error ''Command failed'')),
      ensureGitMinimumVersion = (\<lambda>gp. None),
      spawnSync = (\<lambda>gp args. fetchStatus),
      gitInfo = Inr \<lparr>sha = Some ''0123abc'', root = ''/repo'',
                     commonGitDir = Some ''/repo/.git'', worktreeGitDir = Some ''/repo/.git''\<rparr>,
      isUnderOrEqual = (\<lambda>child parent. child = parent \<or> prefix (parent @ ''/'') child),
      path_resolve = (\<lambda>a b. if take 1 b = ''/'' then b else a @ ''/'' @ b),
      path_join = (\<lambda>a b. a @ ''/'' @ b),
      url_parse = nodeUrlParse,
      toUpperCase = map toUpperChar,
      getEmailExampleLines = (\<lambda>c. [''    git config --local user.email example@contoso.com'']),
      yellow = (\<lambda>s. s),
      EOL = [CHR 0x0A]\<rparr>"

text \<open>The object after the getter has run: only the two fields of the getter change.\<close>

definition resolved :: "world \<Rightarrow> Git \<Rightarrow> Git" where
  "resolved w g = snd (gitPath w g)"

definition rethrown :: "world \<Rightarrow> string \<Rightarrow> error \<Rightarrow> error" where
  "rethrown w gp e = (case ensureGitMinimumVersion w gp of Some e' \<Rightarrow> e' | None \<Rightarrow> e)"

definition emailArgs :: "string list" where
  "emailArgs = [''config'', ''user.email'']"

definition workingDirectory :: "string option \<Rightarrow> Git \<Rightarrow> string" where
  "workingDirectory repositoryRoot g =
     (case repositoryRoot of None \<Rightarrow> rushJsonFolder (rushConfiguration g) | Some r \<Rightarrow> r)"

definition emailQuery :: "world \<Rightarrow> string \<Rightarrow> Git \<Rightarrow> error + string" where
  "emailQuery w gp g =
     executeCommandAndCaptureOutput w gp emailArgs (rushJsonFolder (rushConfiguration g))"

definition expectedEmailSlot :: "world \<Rightarrow> string \<Rightarrow> Git \<Rightarrow> string IResultOrError" where
  "expectedEmailSlot w gp g =
     (case emailQuery w gp g of
        Inr out \<Rightarrow> \<lparr>error = None, result = Some (trim out)\<rparr>
      | Inl e \<Rightarrow> \<lparr>error = Some (rethrown w gp e), result = None\<rparr>)"

definition emailSlotFaithful :: "world \<Rightarrow> Git \<Rightarrow> bool" where
  "emailSlotFaithful w g =
     (case m_gitEmailResult g of
        None \<Rightarrow> True
      | Some r \<Rightarrow> (case fst (getGitPathOrThrow w g) of
                     Inr gp \<Rightarrow> r = expectedEmailSlot w gp g
                   | Inl e \<Rightarrow> False))"

definition printedAfter :: "Git \<Rightarrow> string \<Rightarrow> Git" where
  "printedAfter g msg = g\<lparr>events := events g @ [ConsoleLog msg]\<rparr>"

definition exactlyOne :: "'a IResultOrError \<Rightarrow> bool" where
  "exactlyOne r = ((error r = None) \<noteq> (result r = None))"

definition slotsResolved :: "Git \<Rightarrow> bool" where
  "slotsResolved g =
     ((case m_gitEmailResult g of None \<Rightarrow> True | Some r \<Rightarrow> exactlyOne r)
      \<and> (case m_gitHooksPath g of None \<Rightarrow> True | Some r \<Rightarrow> exactlyOne r))"

definition keepsSlots :: "'a call \<Rightarrow> bool" where
  "keepsSlots m =
     (\<forall>g. m_gitEmailResult (snd (m g)) = m_gitEmailResult g
          \<and> m_gitHooksPath (snd (m g)) = m_gitHooksPath g)"

definition maintains :: "'a call \<Rightarrow> bool" where
  "maintains m = (\<forall>g. slotsResolved g \<longrightarrow> slotsResolved (snd (m g)))"

definition fetchArgs :: "string \<Rightarrow> nat \<Rightarrow> string list" where
  "fetchArgs remoteBranchName firstSlashIndex =
     [''fetch'', take firstSlashIndex remoteBranchName,
      drop (firstSlashIndex + 1) remoteBranchName]"

definition afterFetch :: "world \<Rightarrow> string \<Rightarrow> string \<Rightarrow> nat \<Rightarrow> Git \<Rightarrow> Git" where
  "afterFetch w gp remoteBranchName firstSlashIndex g =
     (resolved w g)\<lparr>events := events g
        @ [ConsoleLog (''Checking for updates to '' @ remoteBranchName @ ''...''),
           SpawnSync gp (fetchArgs remoteBranchName firstSlashIndex)]
        @ (if spawnSync w gp (fetchArgs remoteBranchName firstSlashIndex) = Some 0 then []
           else [TerminalWarningLine (fetchWarning remoteBranchName)])\<rparr>"

definition afterRefusedFetch :: "string \<Rightarrow> Git \<Rightarrow> Git" where
  "afterRefusedFetch remoteBranchName g =
     g\<lparr>events := events g
        @ [ConsoleLog (''Checking for updates to '' @ remoteBranchName @ ''...'')]\<rparr>"

text \<open>
  The reading of C6 as it is worded: every line of an output, trimmed, without the
  blank ones.
\<close>

definition trimmedLines :: "string \<Rightarrow> string list" where
  "trimmedLines out = filter (\<lambda>l. l \<noteq> []) (map trim (split_js (CHR 0x0A) out))"

definition untrackedArgs :: "string list" where
  "untrackedArgs = [''ls-files'', ''--exclude-standard'', ''--others'']"

definition diffOnHEADArgs :: "string list" where
  "diffOnHEADArgs = [''diff'', ''HEAD'', ''--name-only'']"
















section \<open>Changed files under a path prefix\<close>

lemma keptLine_simps [simp]:
  "keptLine None = False" "keptLine (Some l) = (l \<noteq> [])"
  by (auto simp: keptLine_def)

lemma changedFiles_filter_aux:
  "map the (filter keptLine (map (changedFileOfLine u p) ls)) =
   filter (\<lambda>t. \<not> truthy p \<or> u t (the p))
     (map the (filter keptLine (map (changedFileOfLine u None) ls)))"
  by (induction ls) (simp_all add: changedFileOfLine_def Let_def)

lemma changedFilesOfOutput_filter:
  "changedFilesOfOutput u p out =
   filter (\<lambda>t. \<not> truthy p \<or> u t (the p)) (changedFilesOfOutput u None out)"
  unfolding changedFilesOfOutput_def by (rule changedFiles_filter_aux)

text \<open>
  C5. On the same object and the same collaborators (so on the same diff output),
  \<^verbatim>\<open>getChangedFiles\<close> with a path prefix and without one end alike: both throw the
  same error, or both return, and then the list returned with the prefix is a
  subsequence of the list returned without it (entries of the unfiltered result, in
  their order). The object afterwards is the same in both cases. \<open>rel_sum\<close> relates
  two outcomes of the same kind: two errors by equality, two results by \<open>subseq\<close>.
\<close>

theorem getChangedFiles_prefix_subseq:
  "rel_sum (=) subseq
     (fst (getChangedFiles w targetBranch skipFetch pathPrefix g))
     (fst (getChangedFiles w targetBranch skipFetch None g))
   \<and> snd (getChangedFiles w targetBranch skipFetch pathPrefix g)
     = snd (getChangedFiles w targetBranch skipFetch None g)"
  unfolding getChangedFiles_def bindM_def returnM_def
  by (auto split: prod.splits sum.splits simp: changedFilesOfOutput_filter[of _ pathPrefix])

lemma bindM_returnM [simp]: "bindM (returnM v) f g = f v g"
  by (simp add: bindM_def returnM_def)

lemma bindM_throwM [simp]: "bindM (throwM e) f g = (Inl e, g)"
  by (simp add: bindM_def throwM_def)

lemma bindM_emit [simp]: "bindM (emit ev) f g = f () (g\<lparr>events := events g @ [ev]\<rparr>)"
  by (simp add: bindM_def emit_def)

lemma bindM_Inr: "m g = (Inr v, g') \<Longrightarrow> bindM m f g = f v g'"
  by (simp add: bindM_def)

lemma bindM_Inl: "m g = (Inl e, g') \<Longrightarrow> bindM m f g = (Inl e, g')"
  by (simp add: bindM_def)

lemma resolved_fields [simp]:
  "rushConfiguration (resolved w g) = rushConfiguration g"
  "m_gitEmailResult (resolved w g) = m_gitEmailResult g"
  "m_gitHooksPath (resolved w g) = m_gitHooksPath g"
  "m_checkedGitInfo (resolved w g) = m_checkedGitInfo g"
  "m_gitInfo (resolved w g) = m_gitInfo g"
  "events (resolved w g) = events g"
  "m_checkedGitPath (resolved w g) = True"
  by (simp_all add: resolved_def gitPath_def Let_def)

lemma gitPath_resolved: "gitPath w g = (Inr (m_gitPath (resolved w g)), resolved w g)"
  by (simp add: resolved_def gitPath_def Let_def)

lemma resolved_idem [simp]: "resolved w (resolved w g) = resolved w g"
  by (simp add: resolved_def gitPath_def Let_def)

lemma resolved_events_update [simp]:
  "resolved w (g\<lparr>events := es\<rparr>) = (resolved w g)\<lparr>events := es\<rparr>"
  by (simp add: resolved_def gitPath_def Let_def)

lemma resolved_email_update [simp]:
  "resolved w (g\<lparr>m_gitEmailResult := r\<rparr>) = (resolved w g)\<lparr>m_gitEmailResult := r\<rparr>"
  by (simp add: resolved_def gitPath_def Let_def)

lemma resolved_hooks_update [simp]:
  "resolved w (g\<lparr>m_gitHooksPath := r\<rparr>) = (resolved w g)\<lparr>m_gitHooksPath := r\<rparr>"
  by (simp add: resolved_def gitPath_def Let_def)

lemma getGitPathOrThrow_cases:
  "getGitPathOrThrow w g =
     (if truthy (m_gitPath (resolved w g)) then Inr (the (m_gitPath (resolved w g)))
      else Inl (Error ''Git is not present''), resolved w g)"
  by (simp add: getGitPathOrThrow_def bindM_def gitPath_resolved throwM_def returnM_def
           split: option.splits)

lemma getGitPathOrThrow_Inr:
  "fst (getGitPathOrThrow w g) = Inr gp \<Longrightarrow> getGitPathOrThrow w g = (Inr gp, resolved w g)"
  by (simp add: getGitPathOrThrow_cases split: if_splits)

lemma getGitPathOrThrow_resolved:
  "fst (getGitPathOrThrow w g) = Inr gp \<Longrightarrow>
   getGitPathOrThrow w (resolved w g) = (Inr gp, resolved w g)"
  by (simp add: getGitPathOrThrow_cases split: if_splits)

lemma priv_execute_cases:
  "priv_executeGitCommandAndCaptureOutput w gp args r g =
     (case executeCommandAndCaptureOutput w gp args (workingDirectory r g) of
        Inr out \<Rightarrow>
          (Inr out, g\<lparr>events := events g @ [Exec gp args (workingDirectory r g)]\<rparr>)
      | Inl e \<Rightarrow>
          (Inl (rethrown w gp e),
           g\<lparr>events := events g @ [Exec gp args (workingDirectory r g),
                                     EnsureGitMinimumVersion gp]\<rparr>))"
  by (simp add: priv_executeGitCommandAndCaptureOutput_def rethrown_def returnM_def throwM_def
        workingDirectory_def split: sum.splits option.splits)

lemma priv_execute_None:
  "priv_executeGitCommandAndCaptureOutput w gp args None g =
     (case executeCommandAndCaptureOutput w gp args (rushJsonFolder (rushConfiguration g)) of
        Inr out \<Rightarrow>
          (Inr out,
           g\<lparr>events := events g @ [Exec gp args (rushJsonFolder (rushConfiguration g))]\<rparr>)
      | Inl e \<Rightarrow>
          (Inl (rethrown w gp e),
           g\<lparr>events := events g @ [Exec gp args (rushJsonFolder (rushConfiguration g)),
                                     EnsureGitMinimumVersion gp]\<rparr>))"
  by (simp add: priv_execute_cases workingDirectory_def split: sum.splits)

lemma priv_tryGetGitEmail_cached:
  "m_gitEmailResult g = Some r \<Longrightarrow> priv_tryGetGitEmail w g = (Inr r, g)"
  by (simp add: priv_tryGetGitEmail_def returnM_def)

lemma priv_tryGetGitEmail_absent:
  assumes "m_gitEmailResult g = None" and "\<not> truthy (m_gitPath (resolved w g))"
  shows "priv_tryGetGitEmail w g = (Inl (Error ''Git is not present''), resolved w g)"
  using assms by (simp add: priv_tryGetGitEmail_def bindM_def getGitPathOrThrow_cases)

lemma priv_tryGetGitEmail_fresh:
  assumes "m_gitEmailResult g = None" and "fst (getGitPathOrThrow w g) = Inr gp"
  shows "priv_tryGetGitEmail w g =
     (case executeCommandAndCaptureOutput w gp emailArgs (rushJsonFolder (rushConfiguration g)) of
        Inr out \<Rightarrow>
          (Inr \<lparr>error = None, result = Some (trim out)\<rparr>,
           (resolved w g)\<lparr>events := events g @ [Exec gp emailArgs (rushJsonFolder (rushConfiguration g))],
                           m_gitEmailResult := Some \<lparr>error = None, result = Some (trim out)\<rparr>\<rparr>)
      | Inl e \<Rightarrow>
          (Inr \<lparr>error = Some (rethrown w gp e), result = None\<rparr>,
           (resolved w g)\<lparr>events := events g @ [Exec gp emailArgs (rushJsonFolder (rushConfiguration g)),
                                                 EnsureGitMinimumVersion gp],
                           m_gitEmailResult := Some \<lparr>error = Some (rethrown w gp e), result = None\<rparr>\<rparr>))"
  using assms
  by (simp add: priv_tryGetGitEmail_def getGitPathOrThrow_Inr bindM_Inr tryCatch_def bindM_def
        priv_execute_None returnM_def emailArgs_def split: sum.splits)

lemma getGitEmail_of_slot:
  assumes "priv_tryGetGitEmail w g = (Inr r, g')"
  shows "getGitEmail w g =
     (case error r of
        Some e \<Rightarrow> (Inl AlreadyReportedError,
                    printedAfter g' (join_js (EOL w) (emailErrorLines e)))
      | None \<Rightarrow>
          (if result r = None \<or> result r = Some []
           then (Inl AlreadyReportedError,
                 printedAfter g' (join_js (EOL w)
                   (emailMissingLines (getEmailExampleLines w (rushConfiguration g')))))
           else (Inr (the (result r)), g')))"
  using assms
  by (auto simp: getGitEmail_def bindM_Inr printedAfter_def throwM_def returnM_def
           split: option.splits)

lemma getGitEmail_absent:
  assumes "priv_tryGetGitEmail w g = (Inl e, g')"
  shows "getGitEmail w g = (Inl e, g')"
  using assms by (simp add: getGitEmail_def bindM_Inl)

lemma fst_getGitPathOrThrow_frame [simp]:
  "fst (getGitPathOrThrow w ((resolved w g)\<lparr>events := es, m_gitEmailResult := r\<rparr>))
   = fst (getGitPathOrThrow w g)"
  "fst (getGitPathOrThrow w (g\<lparr>events := es\<rparr>)) = fst (getGitPathOrThrow w g)"
  "fst (getGitPathOrThrow w (resolved w g)) = fst (getGitPathOrThrow w g)"
  by (simp_all add: getGitPathOrThrow_cases)

lemma priv_tryGetGitEmail_faithful:
  assumes "emailSlotFaithful w g" and "fst (getGitPathOrThrow w g) = Inr gp"
  shows "fst (priv_tryGetGitEmail w g) = Inr (expectedEmailSlot w gp g)"
    and "m_gitEmailResult (snd (priv_tryGetGitEmail w g)) = Some (expectedEmailSlot w gp g)"
    and "rushConfiguration (snd (priv_tryGetGitEmail w g)) = rushConfiguration g"
    and "fst (getGitPathOrThrow w (snd (priv_tryGetGitEmail w g))) = Inr gp"
proof -
  show "fst (priv_tryGetGitEmail w g) = Inr (expectedEmailSlot w gp g)"
    using assms
    by (cases "m_gitEmailResult g")
       (auto simp: priv_tryGetGitEmail_fresh priv_tryGetGitEmail_cached emailSlotFaithful_def
          expectedEmailSlot_def emailQuery_def split: sum.splits)
  show "m_gitEmailResult (snd (priv_tryGetGitEmail w g)) = Some (expectedEmailSlot w gp g)"
    using assms
    by (cases "m_gitEmailResult g")
       (auto simp: priv_tryGetGitEmail_fresh priv_tryGetGitEmail_cached emailSlotFaithful_def
          expectedEmailSlot_def emailQuery_def split: sum.splits)
  show "rushConfiguration (snd (priv_tryGetGitEmail w g)) = rushConfiguration g"
    using assms
    by (cases "m_gitEmailResult g")
       (auto simp: priv_tryGetGitEmail_fresh priv_tryGetGitEmail_cached split: sum.splits)
  show "fst (getGitPathOrThrow w (snd (priv_tryGetGitEmail w g))) = Inr gp"
    using assms
    by (cases "m_gitEmailResult g")
       (auto simp: priv_tryGetGitEmail_fresh priv_tryGetGitEmail_cached split: sum.splits)
qed

lemma priv_tryGetGitEmail_no_git:
  assumes "emailSlotFaithful w g" and "fst (getGitPathOrThrow w g) = Inl e"
  shows "priv_tryGetGitEmail w g = (Inl e, resolved w g)"
  using assms
  by (cases "m_gitEmailResult g")
     (auto simp: emailSlotFaithful_def priv_tryGetGitEmail_def bindM_def getGitPathOrThrow_cases
        split: if_splits)

text \<open>
  C10. In every state in which the email slot is empty or holds the outcome of the
  query (\<open>emailSlotFaithful\<close>; so after the constructor and after every call):
  when \<^verbatim>\<open>getGitEmail\<close> returns, Git is present, the query
  \<^verbatim>\<open>git config user.email\<close> has succeeded and the returned string is its trimmed
  output, which is not empty; and when Git is present, a failed query prints the error
  instructions and throws \<open>AlreadyReportedError\<close>, an output that is empty once
  trimmed prints the configuration instructions and throws \<open>AlreadyReportedError\<close>,
  and any other output is returned trimmed. The print is the last effect of the call.
  The state afterwards is again of that kind.
\<close>

theorem getGitEmail_contract:
  assumes "emailSlotFaithful w g"
  shows "(\<forall>v. fst (getGitEmail w g) = Inr v \<longrightarrow>
            v \<noteq> [] \<and> (\<exists>gp out. fst (getGitPathOrThrow w g) = Inr gp
                              \<and> emailQuery w gp g = Inr out \<and> v = trim out))
       \<and> (\<forall>gp. fst (getGitPathOrThrow w g) = Inr gp \<longrightarrow>
            (case emailQuery w gp g of
               Inl e \<Rightarrow>
                 getGitEmail w g =
                   (Inl AlreadyReportedError,
                    printedAfter (snd (priv_tryGetGitEmail w g))
                      (join_js (EOL w) (emailErrorLines (rethrown w gp e))))
             | Inr out \<Rightarrow>
                 if trim out = []
                 then getGitEmail w g =
                        (Inl AlreadyReportedError,
                         printedAfter (snd (priv_tryGetGitEmail w g))
                           (join_js (EOL w)
                              (emailMissingLines (getEmailExampleLines w (rushConfiguration g)))))
                 else getGitEmail w g = (Inr (trim out), snd (priv_tryGetGitEmail w g))))
       \<and> emailSlotFaithful w (snd (getGitEmail w g))"
proof -
  have present: "case emailQuery w gp g of
               Inl e \<Rightarrow>
                 getGitEmail w g =
                   (Inl AlreadyReportedError,
                    printedAfter (snd (priv_tryGetGitEmail w g))
                      (join_js (EOL w) (emailErrorLines (rethrown w gp e))))
             | Inr out \<Rightarrow>
                 if trim out = []
                 then getGitEmail w g =
                        (Inl AlreadyReportedError,
                         printedAfter (snd (priv_tryGetGitEmail w g))
                           (join_js (EOL w)
                              (emailMissingLines (getEmailExampleLines w (rushConfiguration g)))))
                 else getGitEmail w g = (Inr (trim out), snd (priv_tryGetGitEmail w g))"
    if gp: "fst (getGitPathOrThrow w g) = Inr gp" for gp
  proof -
    have slot: "priv_tryGetGitEmail w g
                = (Inr (expectedEmailSlot w gp g), snd (priv_tryGetGitEmail w g))"
      using priv_tryGetGitEmail_faithful(1)[OF assms gp] by (simp add: prod_eq_iff)
    show ?thesis
      using getGitEmail_of_slot[OF slot] priv_tryGetGitEmail_faithful(3)[OF assms gp]
      by (simp add: expectedEmailSlot_def split: sum.splits)
  qed
  have returns: "v \<noteq> [] \<and> (\<exists>gp out. fst (getGitPathOrThrow w g) = Inr gp
                              \<and> emailQuery w gp g = Inr out \<and> v = trim out)"
    if v: "fst (getGitEmail w g) = Inr v" for v
  proof (cases "fst (getGitPathOrThrow w g)")
    case (Inl e)
    then show ?thesis
      using v getGitEmail_absent[OF priv_tryGetGitEmail_no_git[OF assms Inl]] by simp
  next
    case (Inr gp)
    then show ?thesis
      using v present[OF Inr] by (auto split: sum.splits if_splits)
  qed
  have keeps: "emailSlotFaithful w (snd (getGitEmail w g))"
  proof (cases "fst (getGitPathOrThrow w g)")
    case (Inl e)
    then show ?thesis
      using assms getGitEmail_absent[OF priv_tryGetGitEmail_no_git[OF assms Inl]]
      by (simp add: emailSlotFaithful_def expectedEmailSlot_def emailQuery_def
               split: option.splits)
  next
    case (Inr gp)
    have "emailSlotFaithful w (snd (priv_tryGetGitEmail w g))"
      using priv_tryGetGitEmail_faithful[OF assms Inr]
      by (simp add: emailSlotFaithful_def expectedEmailSlot_def emailQuery_def)
    then show ?thesis
      using present[OF Inr]
      by (auto simp: emailSlotFaithful_def expectedEmailSlot_def emailQuery_def printedAfter_def
               split: sum.splits if_splits option.splits)
  qed
  from present returns keeps show ?thesis by blast
qed

theorem getGitEmail_contract_witness:
  "emailSlotFaithful (worldOf exampleCommands (Some 0)) (new_Git exampleConfiguration)
   \<and> fst (getGitEmail (worldOf exampleCommands (Some 0)) (new_Git exampleConfiguration))
       = Inr ''dev@example.com''
   \<and> emailSlotFaithful (worldOf failingEmailCommands (Some 0)) (new_Git exampleConfiguration)
   \<and> fst (getGitEmail (worldOf failingEmailCommands (Some 0)) (new_Git exampleConfiguration))
       = Inl AlreadyReportedError"
proof -
  let ?W = "worldOf exampleCommands (Some 0)"
  let ?F = "worldOf failingEmailCommands (Some 0)"
  let ?G = "new_Git exampleConfiguration"
  have h: "emailSlotFaithful ?W ?G" "emailSlotFaithful ?F ?G"
    by (simp_all add: emailSlotFaithful_def new_Git_def)
  have p: "fst (getGitPathOrThrow ?W ?G) = Inr ''/usr/bin/git''"
          "fst (getGitPathOrThrow ?F ?G) = Inr ''/usr/bin/git''"
    by code_simp+
  have q: "emailQuery ?W ''/usr/bin/git'' ?G = Inr (outputLines [''dev@example.com''])"
          "emailQuery ?F ''/usr/bin/git'' ?G = Inl (Error ''Command failed with exit code 1'')"
    by code_simp+
  have t: "trim (outputLines [''dev@example.com'']) = ''dev@example.com''"
    by code_simp
  note c1 = getGitEmail_contract[OF h(1), THEN conjunct2, THEN conjunct1, rule_format, OF p(1)]
  note c2 = getGitEmail_contract[OF h(2), THEN conjunct2, THEN conjunct1, rule_format, OF p(2)]
  have ok: "getGitEmail ?W ?G = (Inr ''dev@example.com'', snd (priv_tryGetGitEmail ?W ?G))"
    using c1 unfolding q(1) sum.case t by simp
  have failing: "fst (getGitEmail ?F ?G) = Inl AlreadyReportedError"
    using c2 unfolding q(2) sum.case by simp
  show ?thesis
    using ok failing h by simp
qed

lemma getGitEmail_first_failure:
  assumes fresh: "m_gitEmailResult g = None"
      and gp: "fst (getGitPathOrThrow w g) = Inr gp"
      and fails: "emailQuery w gp g = Inl e"
  shows "getGitEmail w g =
     (Inl AlreadyReportedError,
      (resolved w g)\<lparr>events := events g @
           [Exec gp emailArgs (rushJsonFolder (rushConfiguration g)),
            EnsureGitMinimumVersion gp,
            ConsoleLog (join_js (EOL w) (emailErrorLines (rethrown w gp e)))],
         m_gitEmailResult := Some \<lparr>error = Some (rethrown w gp e), result = None\<rparr>\<rparr>)"
proof -
  have "priv_tryGetGitEmail w g =
     (Inr \<lparr>error = Some (rethrown w gp e), result = None\<rparr>,
      (resolved w g)\<lparr>events := events g @
           [Exec gp emailArgs (rushJsonFolder (rushConfiguration g)), EnsureGitMinimumVersion gp],
         m_gitEmailResult := Some \<lparr>error = Some (rethrown w gp e), result = None\<rparr>\<rparr>)"
    using priv_tryGetGitEmail_fresh[OF fresh gp] fails by (simp add: emailQuery_def)
  from getGitEmail_of_slot[OF this] show ?thesis
    by (simp add: printedAfter_def)
qed

lemma getGitEmail_cached_failure:
  assumes "m_gitEmailResult g = Some \<lparr>error = Some e, result = None\<rparr>"
  shows "getGitEmail w g =
     (Inl AlreadyReportedError,
      g\<lparr>events := events g @ [ConsoleLog (join_js (EOL w) (emailErrorLines e))]\<rparr>)"
  using getGitEmail_of_slot[OF priv_tryGetGitEmail_cached[OF assms]]
  by (simp add: printedAfter_def)

text \<open>
  C7. On an object whose email slot is still empty, with Git present and a failing
  \<^verbatim>\<open>git config user.email\<close>: two calls of \<^verbatim>\<open>getGitEmail\<close> both throw
  \<open>AlreadyReportedError\<close>; the first runs the query once (and, after its failure, the
  minimum-version check) and prints the report; the second only prints the report
  again. After both calls the query has run exactly once more than before them.
\<close>

theorem getGitEmail_failure_probed_once:
  assumes fresh: "m_gitEmailResult g = None"
      and gp: "fst (getGitPathOrThrow w g) = Inr gp"
      and fails: "emailQuery w gp g = Inl e"
  shows "let probe = Exec gp emailArgs (rushJsonFolder (rushConfiguration g));
             report = ConsoleLog (join_js (EOL w) (emailErrorLines (rethrown w gp e)));
             g1 = snd (getGitEmail w g);
             g2 = snd (getGitEmail w g1)
         in fst (getGitEmail w g) = Inl AlreadyReportedError
          \<and> fst (getGitEmail w g1) = Inl AlreadyReportedError
          \<and> events g1 = events g @ [probe, EnsureGitMinimumVersion gp, report]
          \<and> events g2 = events g1 @ [report]
          \<and> count_list (events g2) probe = count_list (events g) probe + 1"
proof -
  note first = getGitEmail_first_failure[OF fresh gp fails]
  have slot: "m_gitEmailResult (snd (getGitEmail w g))
              = Some \<lparr>error = Some (rethrown w gp e), result = None\<rparr>"
    by (simp add: first)
  note second = getGitEmail_cached_failure[OF slot, of w]
  show ?thesis
    unfolding Let_def by (simp add: second) (simp add: first)
qed

theorem getGitEmail_failure_probed_once_witness:
  "m_gitEmailResult (new_Git exampleConfiguration) = None
   \<and> emailQuery (worldOf failingEmailCommands (Some 0)) ''/usr/bin/git''
        (new_Git exampleConfiguration) = Inl (Error ''Command failed with exit code 1'')
   \<and> count_list
        (events (snd (getGitEmail (worldOf failingEmailCommands (Some 0))
           (snd (getGitEmail (worldOf failingEmailCommands (Some 0))
              (new_Git exampleConfiguration))))))
        (Exec ''/usr/bin/git'' [''config'', ''user.email''] ''/repo'') = 1"
proof -
  let ?F = "worldOf failingEmailCommands (Some 0)"
  let ?G = "new_Git exampleConfiguration"
  have fresh: "m_gitEmailResult ?G = None"
    by (simp add: new_Git_def)
  have gp: "fst (getGitPathOrThrow ?F ?G) = Inr ''/usr/bin/git''"
    by code_simp
  have fails: "emailQuery ?F ''/usr/bin/git'' ?G = Inl (Error ''Command failed with exit code 1'')"
    by code_simp
  have cwd: "rushJsonFolder (rushConfiguration ?G) = ''/repo''"
    by (simp add: new_Git_def exampleConfiguration_def)
  have none: "events ?G = []"
    by (simp add: new_Git_def)
  show ?thesis
    using getGitEmail_failure_probed_once[OF fresh gp fails] fresh fails
    unfolding Let_def cwd none emailArgs_def by simp
qed

text \<open>
  C8. With an empty list of repository URLs, \<^verbatim>\<open>getRemoteDefaultBranch\<close> returns the
  configured default fully-qualified remote branch, and its only effect is one warning
  on the console: no Git command runs and no field of the object changes.
\<close>

theorem getRemoteDefaultBranch_without_urls:
  assumes "repositoryUrls (rushConfiguration g) = []"
  shows "getRemoteDefaultBranch w g =
     (Inr (repositoryDefaultFullyQualifiedRemoteBranch (rushConfiguration g)),
      g\<lparr>events := events g @ [ConsoleLog (yellow w noUrlWarning)]\<rparr>)"
  using assms by (simp add: getRemoteDefaultBranch_def returnM_def)

theorem getRemoteDefaultBranch_without_urls_witness:
  "repositoryUrls (rushConfiguration (new_Git (exampleConfiguration\<lparr>repositoryUrls := []\<rparr>))) = []
   \<and> getRemoteDefaultBranch (worldOf [] None)
        (new_Git (exampleConfiguration\<lparr>repositoryUrls := []\<rparr>))
     = (Inr ''origin/main'',
        (new_Git (exampleConfiguration\<lparr>repositoryUrls := []\<rparr>))
          \<lparr>events := [ConsoleLog noUrlWarning]\<rparr>)"
proof -
  let ?G = "new_Git (exampleConfiguration\<lparr>repositoryUrls := []\<rparr>)"
  have h: "repositoryUrls (rushConfiguration ?G) = []"
    by (simp add: new_Git_def)
  have y: "yellow (worldOf [] None) noUrlWarning = noUrlWarning"
    by (simp add: worldOf_def)
  have c: "repositoryDefaultFullyQualifiedRemoteBranch (rushConfiguration ?G) = ''origin/main''"
          "events ?G = []"
    by (simp_all add: new_Git_def exampleConfiguration_def)
  show ?thesis
    using getRemoteDefaultBranch_without_urls[OF h, of "worldOf [] None"] h
    unfolding y c by simp
qed

lemma keepsSlots_returnM [intro!, simp]: "keepsSlots (returnM v)"
  by (simp add: keepsSlots_def returnM_def)

lemma keepsSlots_throwM [intro!, simp]: "keepsSlots (throwM e)"
  by (simp add: keepsSlots_def throwM_def)

lemma keepsSlots_emit [intro!, simp]: "keepsSlots (emit ev)"
  by (simp add: keepsSlots_def emit_def)

lemma keepsSlots_bindM [intro!]:
  "keepsSlots m \<Longrightarrow> (\<And>v. keepsSlots (f v)) \<Longrightarrow> keepsSlots (bindM m f)"
  unfolding keepsSlots_def bindM_def
  by (auto split: prod.splits sum.splits) (metis snd_conv)+

lemma keepsSlots_tryCatch [intro!]:
  "keepsSlots m \<Longrightarrow> (\<And>e. keepsSlots (h e)) \<Longrightarrow> keepsSlots (tryCatch m h)"
  unfolding keepsSlots_def tryCatch_def
  by (auto split: prod.splits sum.splits) (metis snd_conv)+

lemma keepsSlots_if [intro!]:
  "keepsSlots m \<Longrightarrow> keepsSlots m' \<Longrightarrow> keepsSlots (if c then m else m')"
  by simp

lemma keepsSlots_gitPath [intro!, simp]: "keepsSlots (gitPath w)"
  by (simp add: keepsSlots_def gitPath_def Let_def)

lemma keepsSlots_getGitPathOrThrow [intro!, simp]: "keepsSlots (getGitPathOrThrow w)"
  unfolding getGitPathOrThrow_def by (auto split: option.splits)

lemma keepsSlots_isGitPresent [intro!, simp]: "keepsSlots (isGitPresent w)"
  unfolding isGitPresent_def by auto

lemma keepsSlots_execute [intro!, simp]:
  "keepsSlots (priv_executeGitCommandAndCaptureOutput w gp args r)"
  by (simp add: keepsSlots_def priv_execute_cases split: sum.splits)

lemma keepsSlots_maintains: "keepsSlots m \<Longrightarrow> maintains m"
  by (simp add: keepsSlots_def maintains_def slotsResolved_def)

lemma maintains_bindM:
  "maintains m \<Longrightarrow> (\<And>v. maintains (f v)) \<Longrightarrow> maintains (bindM m f)"
  unfolding maintains_def bindM_def
  by (auto split: prod.splits sum.splits)

lemma maintainsD: "maintains m \<Longrightarrow> slotsResolved g \<Longrightarrow> slotsResolved (snd (m g))"
  by (simp add: maintains_def)

lemma exactlyOne_simps [simp]:
  "exactlyOne \<lparr>error = None, result = Some v\<rparr>"
  "exactlyOne \<lparr>error = Some e, result = None\<rparr>"
  "\<not> exactlyOne \<lparr>error = None, result = None\<rparr>"
  "\<not> exactlyOne \<lparr>error = Some e, result = Some v\<rparr>"
  by (simp_all add: exactlyOne_def)

lemma priv_tryGetGitEmail_slots:
  assumes "slotsResolved g"
  shows "slotsResolved (snd (priv_tryGetGitEmail w g))"
    and "case fst (priv_tryGetGitEmail w g) of Inr r \<Rightarrow> exactlyOne r | Inl e \<Rightarrow> True"
  using assms
  by (auto simp: priv_tryGetGitEmail_def slotsResolved_def returnM_def bindM_def tryCatch_def
        getGitPathOrThrow_cases priv_execute_None
        split: option.splits sum.splits)

lemma priv_tryGetGitHooksPath_slots:
  assumes "slotsResolved g"
  shows "slotsResolved (snd (priv_tryGetGitHooksPath w g))"
    and "case fst (priv_tryGetGitHooksPath w g) of Inr r \<Rightarrow> exactlyOne r | Inl e \<Rightarrow> True"
  using assms
  by (auto simp: priv_tryGetGitHooksPath_def slotsResolved_def returnM_def bindM_def tryCatch_def
        getGitPathOrThrow_cases priv_execute_None
        split: option.splits sum.splits)

lemma maintains_priv_tryGetGitEmail: "maintains (priv_tryGetGitEmail w)"
  by (simp add: maintains_def priv_tryGetGitEmail_slots)

lemma maintains_priv_tryGetGitHooksPath: "maintains (priv_tryGetGitHooksPath w)"
  by (simp add: maintains_def priv_tryGetGitHooksPath_slots)

lemma tryGetGitEmail_state:
  "snd (tryGetGitEmail w g) = snd (priv_tryGetGitEmail w g)"
  by (simp add: tryGetGitEmail_def bindM_def returnM_def
           split: prod.splits sum.splits option.splits)

lemma maintains_tryGetGitEmail: "maintains (tryGetGitEmail w)"
  by (simp add: maintains_def tryGetGitEmail_state priv_tryGetGitEmail_slots)

lemma getGitEmail_slots:
  "m_gitEmailResult (snd (getGitEmail w g)) = m_gitEmailResult (snd (priv_tryGetGitEmail w g))
   \<and> m_gitHooksPath (snd (getGitEmail w g)) = m_gitHooksPath (snd (priv_tryGetGitEmail w g))"
proof (cases "priv_tryGetGitEmail w g")
  case (Pair r g')
  show ?thesis
  proof (cases r)
    case (Inl e)
    with Pair show ?thesis
      using getGitEmail_absent[of w g e g'] by simp
  next
    case (Inr v)
    with Pair show ?thesis
      using getGitEmail_of_slot[of w g v g']
      by (simp add: printedAfter_def split: option.splits)
  qed
qed

lemma maintains_getGitEmail: "maintains (getGitEmail w)"
  unfolding maintains_def
proof (intro allI impI)
  fix g
  assume "slotsResolved g"
  then have "slotsResolved (snd (priv_tryGetGitEmail w g))"
    by (rule priv_tryGetGitEmail_slots)
  then show "slotsResolved (snd (getGitEmail w g))"
    using getGitEmail_slots[of w g] by (simp add: slotsResolved_def)
qed

lemma keepsSlots_isPathUnderGitWorkingTree_of [intro!, simp]:
  "keepsSlots (isPathUnderGitWorkingTree_of w i)"
  unfolding isPathUnderGitWorkingTree_of_def by auto

lemma keepsSlots_getGitInfo [intro!, simp]: "keepsSlots (getGitInfo w)"
proof -
  have a: "keepsSlots (\<lambda>g'. (Inr (), g'\<lparr>m_gitInfo := Some i\<rparr>))" for i
    by (simp add: keepsSlots_def)
  have b: "keepsSlots (\<lambda>g'. (Inr (m_gitInfo g'), g'\<lparr>m_checkedGitInfo := True\<rparr>))"
    by (simp add: keepsSlots_def)
  have c: "keepsSlots (\<lambda>g. (Inr (m_gitInfo g), g))"
    by (simp add: keepsSlots_def)
  have d: "keepsSlots (bindM
             (case gitInfo w of
                Inl ex \<Rightarrow> returnM ()
              | Inr repoInfo \<Rightarrow>
                  bindM (isPathUnderGitWorkingTree_of w repoInfo) (\<lambda>isUnder.
                    if isUnder then (\<lambda>g'. (Inr (), g'\<lparr>m_gitInfo := Some repoInfo\<rparr>))
                    else returnM ()))
             (\<lambda>_ g'. (Inr (m_gitInfo g'), g'\<lparr>m_checkedGitInfo := True\<rparr>)))"
    by (auto intro!: a b split: sum.splits)
  show ?thesis
    using c d unfolding keepsSlots_def getGitInfo_def by simp
qed

lemma keepsSlots_isPathUnderGitWorkingTree [intro!, simp]:
  "keepsSlots (isPathUnderGitWorkingTree w i)"
  unfolding isPathUnderGitWorkingTree_def by (auto split: option.splits)

lemma keepsSlots_getHooksFolder [intro!, simp]: "keepsSlots (getHooksFolder w)"
  unfolding getHooksFolder_def by (auto split: option.splits)

lemma keepsSlots_getConfigHooksPath [intro!, simp]: "keepsSlots (getConfigHooksPath w)"
  unfolding getConfigHooksPath_def by auto

lemma maintains_isHooksPathDefault: "maintains (isHooksPathDefault w)"
proof -
  have tail: "maintains (bindM (priv_tryGetGitHooksPath w) (\<lambda>hooksResult.
                   case error hooksResult of
                     Some e \<Rightarrow>
                       bindM (emit (ConsoleLog (join_js (EOL w) (hooksErrorLines e))))
                         (\<lambda>_. returnM True)
                   | None \<Rightarrow>
                       if truthy (result hooksResult)
                       then returnM (path_resolve w r (the (result hooksResult)) = d)
                       else returnM True))" for r d
    by (rule maintains_bindM[OF maintains_priv_tryGetGitHooksPath])
       (auto split: option.splits intro!: keepsSlots_maintains)
  show ?thesis
    unfolding isHooksPathDefault_def Let_def
    by (rule maintains_bindM[OF keepsSlots_maintains[OF keepsSlots_getGitInfo]])
       (auto split: option.splits intro!: tail keepsSlots_maintains)
qed

lemma keepsSlots_priv_tryFetchRemoteBranch [intro!, simp]:
  "keepsSlots (priv_tryFetchRemoteBranch w b)"
  unfolding priv_tryFetchRemoteBranch_def Let_def by (auto split: option.splits)

lemma keepsSlots_priv_fetchRemoteBranch [intro!, simp]:
  "keepsSlots (priv_fetchRemoteBranch w b)"
  unfolding priv_fetchRemoteBranch_def by auto

lemma keepsSlots_getMergeBase [intro!, simp]: "keepsSlots (getMergeBase w b f)"
  unfolding getMergeBase_def by auto

lemma keepsSlots_getBlobContent [intro!, simp]: "keepsSlots (getBlobContent w b r)"
  unfolding getBlobContent_def by auto

lemma keepsSlots_getChangedFiles [intro!, simp]: "keepsSlots (getChangedFiles w b s p)"
  unfolding getChangedFiles_def by auto

lemma keepsSlots_getUncommittedChanges [intro!, simp]: "keepsSlots (getUncommittedChanges w)"
  unfolding getUncommittedChanges_def priv_getUntrackedChanges_def priv_getDiffOnHEAD_def
  by auto

lemma keepsSlots_hasUncommittedChanges [intro!, simp]: "keepsSlots (hasUncommittedChanges w)"
  unfolding hasUncommittedChanges_def by auto

lemma keepsSlots_remoteMatches [intro!, simp]: "keepsSlots (remoteMatches w gp urls n)"
  unfolding remoteMatches_def Let_def by (auto split: sum.splits)

lemma keepsSlots_filterRemotes [intro!, simp]: "keepsSlots (filterRemotes w gp urls ns)"
  by (induction ns) auto

lemma keepsSlotsD:
  "keepsSlots m \<Longrightarrow>
   m_gitEmailResult (snd (m g)) = m_gitEmailResult g
   \<and> m_gitHooksPath (snd (m g)) = m_gitHooksPath g"
  by (simp add: keepsSlots_def)

lemma keepsSlots_remotes:
  "keepsSlots
     (bindM (getGitPathOrThrow w) (\<lambda>gp.
        bindM (priv_executeGitCommandAndCaptureOutput w gp [''remote''] None) (\<lambda>out.
          case normalizeAll w urls of
            Inl e \<Rightarrow> throwM e
          | Inr normalizedRepositoryUrls \<Rightarrow>
              bindM (filterRemotes w gp normalizedRepositoryUrls
                       (split_js (CHR 0x0A) (trim out))) (\<lambda>matchingRemotes.
                case matchingRemotes of
                  first # others \<Rightarrow>
                    bindM (if length matchingRemotes > 1
                           then emit (ConsoleLog (several first))
                           else returnM ()) (\<lambda>_. returnM (first @ ''/'' @ branch))
                | [] \<Rightarrow> bindM (emit (ConsoleLog msg)) (\<lambda>_. returnM fallback)))))"
  by (intro keepsSlots_bindM keepsSlots_getGitPathOrThrow keepsSlots_execute)
     (auto split: sum.splits list.splits)

lemma keepsSlots_getRemoteDefaultBranch [intro!, simp]: "keepsSlots (getRemoteDefaultBranch w)"
  unfolding keepsSlots_def
proof (intro allI)
  fix g
  show "m_gitEmailResult (snd (getRemoteDefaultBranch w g)) = m_gitEmailResult g
        \<and> m_gitHooksPath (snd (getRemoteDefaultBranch w g)) = m_gitHooksPath g"
  proof (cases "length (repositoryUrls (rushConfiguration g)) > 0")
    case True
    show ?thesis
      unfolding getRemoteDefaultBranch_def Let_def if_P[OF True]
      by (rule keepsSlotsD[OF keepsSlots_remotes])
  next
    case False
    show ?thesis
      unfolding getRemoteDefaultBranch_def Let_def if_not_P[OF False]
      by (simp add: returnM_def)
  qed
qed

lemma slotsResolved_new_Git: "slotsResolved (new_Git c)"
  by (simp add: slotsResolved_def new_Git_def)

text \<open>
  C9. A slot is resolved when it is undefined or holds exactly one of an error and a
  result. Both slots are resolved in a new object. From a state with resolved slots,
  the two memoized queries return a value with exactly one of the two fields, and
  they and every other method of the class (the readers \<^verbatim>\<open>tryGetGitEmail\<close>,
  \<^verbatim>\<open>getGitEmail\<close> and \<^verbatim>\<open>isHooksPathDefault\<close> among them) leave both slots resolved,
  whether they return or throw.
\<close>

theorem resultOrError_exactly_one:
  assumes "slotsResolved g"
  shows "slotsResolved (new_Git c)
       \<and> (case fst (priv_tryGetGitEmail w g) of Inr r \<Rightarrow> exactlyOne r | Inl e \<Rightarrow> True)
       \<and> (case fst (priv_tryGetGitHooksPath w g) of Inr r \<Rightarrow> exactlyOne r | Inl e \<Rightarrow> True)
       \<and> slotsResolved (snd (priv_tryGetGitEmail w g))
       \<and> slotsResolved (snd (priv_tryGetGitHooksPath w g))
       \<and> slotsResolved (snd (tryGetGitEmail w g))
       \<and> slotsResolved (snd (getGitEmail w g))
       \<and> slotsResolved (snd (isHooksPathDefault w g))
       \<and> slotsResolved (snd (gitPath w g))
       \<and> slotsResolved (snd (getGitPathOrThrow w g))
       \<and> slotsResolved (snd (isGitPresent w g))
       \<and> slotsResolved (snd (isPathUnderGitWorkingTree w repoInfo g))
       \<and> slotsResolved (snd (getHooksFolder w g))
       \<and> slotsResolved (snd (getConfigHooksPath w g))
       \<and> slotsResolved (snd (getGitInfo w g))
       \<and> slotsResolved (snd (getMergeBase w targetBranch shouldFetch g))
       \<and> slotsResolved (snd (getBlobContent w blobSpec repositoryRoot g))
       \<and> slotsResolved (snd (getChangedFiles w targetBranch skipFetch pathPrefix g))
       \<and> slotsResolved (snd (getRemoteDefaultBranch w g))
       \<and> slotsResolved (snd (hasUncommittedChanges w g))
       \<and> slotsResolved (snd (getUncommittedChanges w g))"
proof -
  note k = keepsSlots_maintains[THEN maintainsD, OF _ assms]
  show ?thesis
    by (intro conjI slotsResolved_new_Git priv_tryGetGitEmail_slots[OF assms]
          priv_tryGetGitHooksPath_slots[OF assms]
          maintainsD[OF maintains_tryGetGitEmail assms]
          maintainsD[OF maintains_getGitEmail assms]
          maintainsD[OF maintains_isHooksPathDefault assms]
          k[OF keepsSlots_gitPath] k[OF keepsSlots_getGitPathOrThrow]
          k[OF keepsSlots_isGitPresent] k[OF keepsSlots_isPathUnderGitWorkingTree]
          k[OF keepsSlots_getHooksFolder] k[OF keepsSlots_getConfigHooksPath]
          k[OF keepsSlots_getGitInfo] k[OF keepsSlots_getMergeBase]
          k[OF keepsSlots_getBlobContent] k[OF keepsSlots_getChangedFiles]
          k[OF keepsSlots_getRemoteDefaultBranch] k[OF keepsSlots_hasUncommittedChanges]
          k[OF keepsSlots_getUncommittedChanges])
qed

theorem resultOrError_exactly_one_witness:
  "slotsResolved (new_Git exampleConfiguration)
   \<and> m_gitEmailResult (snd (getGitEmail (worldOf exampleCommands (Some 0))
                               (new_Git exampleConfiguration)))
       = Some \<lparr>error = None, result = Some ''dev@example.com''\<rparr>
   \<and> m_gitEmailResult (snd (getGitEmail (worldOf failingEmailCommands (Some 0))
                               (new_Git exampleConfiguration)))
       = Some \<lparr>error = Some (Error ''Command failed with exit code 1''), result = None\<rparr>
   \<and> slotsResolved (snd (getGitEmail (worldOf exampleCommands (Some 0))
                            (new_Git exampleConfiguration)))
   \<and> slotsResolved (snd (getGitEmail (worldOf failingEmailCommands (Some 0))
                            (new_Git exampleConfiguration)))"
proof -
  let ?G = "new_Git exampleConfiguration"
  have h: "slotsResolved ?G"
    by (simp add: slotsResolved_def new_Git_def)
  have a: "m_gitEmailResult (snd (getGitEmail (worldOf exampleCommands (Some 0)) ?G))
           = Some \<lparr>error = None, result = Some ''dev@example.com''\<rparr>"
    by code_simp
  have b: "m_gitEmailResult (snd (getGitEmail (worldOf failingEmailCommands (Some 0)) ?G))
           = Some \<lparr>error = Some (Error ''Command failed with exit code 1''), result = None\<rparr>"
    by code_simp
  from resultOrError_exactly_one[OF h, of exampleConfiguration "worldOf exampleCommands (Some 0)"]
  have c: "slotsResolved (snd (getGitEmail (worldOf exampleCommands (Some 0)) ?G))"
    by blast
  from resultOrError_exactly_one[OF h, of exampleConfiguration "worldOf failingEmailCommands (Some 0)"]
  have d: "slotsResolved (snd (getGitEmail (worldOf failingEmailCommands (Some 0)) ?G))"
    by blast
  from h a b c d show ?thesis by (intro conjI)
qed

lemma priv_fetchRemoteBranch_slash:
  assumes "fst (getGitPathOrThrow w g) = Inr gp" and "indexOf (CHR ''/'') b = Some i"
  shows "priv_fetchRemoteBranch w b g = (Inr (), afterFetch w gp b i g)"
proof -
  have gp': "getGitPathOrThrow w (g\<lparr>events := es\<rparr>) = (Inr gp, (resolved w g)\<lparr>events := es\<rparr>)"
    for es
    using assms(1) getGitPathOrThrow_Inr[of w "g\<lparr>events := es\<rparr>" gp] by simp
  show ?thesis
    using assms(2)
    by (simp add: priv_fetchRemoteBranch_def priv_tryFetchRemoteBranch_def Let_def
          bindM_def gp' afterFetch_def fetchArgs_def returnM_def emit_def)
qed

lemma priv_fetchRemoteBranch_no_slash:
  assumes "indexOf (CHR ''/'') b = None"
  shows "priv_fetchRemoteBranch w b g
         = (Inl (Error (branchFormatMessage b)), afterRefusedFetch b g)"
  using assms
  by (simp add: priv_fetchRemoteBranch_def priv_tryFetchRemoteBranch_def afterRefusedFetch_def)

text \<open>
  C3 (as amended). With Git present: for a remote branch name with a slash, the fetch
  step returns, whatever the exit status of the fetch; it logs that it checks for
  updates, spawns \<^verbatim>\<open>git fetch <remote> <branch>\<close> and, when the status is not 0, writes
  the warning line on the terminal; \<^verbatim>\<open>getMergeBase\<close> with \<^verbatim>\<open>shouldFetch\<close> and
  \<^verbatim>\<open>getChangedFiles\<close> without \<^verbatim>\<open>skipFetch\<close> then go on exactly as the same call
  without the fetch does. For a name without a slash the fetch step throws the
  branch-format error before any Git process, and both methods end with that error.
\<close>

theorem fetch_best_effort:
  assumes "fst (getGitPathOrThrow w g) = Inr gp"
  shows "case indexOf (CHR ''/'') b of
           Some i \<Rightarrow>
             priv_fetchRemoteBranch w b g = (Inr (), afterFetch w gp b i g)
             \<and> getMergeBase w b True g = getMergeBase w b False (afterFetch w gp b i g)
             \<and> getChangedFiles w b False p g = getChangedFiles w b True p (afterFetch w gp b i g)
         | None \<Rightarrow>
             priv_fetchRemoteBranch w b g
               = (Inl (Error (branchFormatMessage b)), afterRefusedFetch b g)
             \<and> getMergeBase w b True g
               = (Inl (Error (branchFormatMessage b)), afterRefusedFetch b g)
             \<and> getChangedFiles w b False p g
               = (Inl (Error (branchFormatMessage b)), afterRefusedFetch b g)"
proof (cases "indexOf (CHR ''/'') b")
  case None
  note f = priv_fetchRemoteBranch_no_slash[OF None, of w g]
  show ?thesis
    by (simp add: None f getMergeBase_def getChangedFiles_def bindM_def)
next
  case (Some i)
  note f = priv_fetchRemoteBranch_slash[OF assms Some]
  show ?thesis
    by (simp add: Some f getMergeBase_def getChangedFiles_def bindM_def returnM_def)
qed

theorem fetch_best_effort_witness:
  "fst (getGitPathOrThrow (worldOf exampleCommands (Some 1)) (new_Git exampleConfiguration))
     = Inr ''/usr/bin/git''
   \<and> fst (getMergeBase (worldOf exampleCommands (Some 1)) ''origin/main'' True
            (new_Git exampleConfiguration)) = Inr ''0123abc''
   \<and> events (snd (getMergeBase (worldOf exampleCommands (Some 1)) ''origin/main'' True
                    (new_Git exampleConfiguration)))
     = [ConsoleLog ''Checking for updates to origin/main...'',
        SpawnSync ''/usr/bin/git'' [''fetch'', ''origin'', ''main''],
        TerminalWarningLine (fetchWarning ''origin/main''),
        Exec ''/usr/bin/git'' (mergeBaseArgs ''origin/main'') ''/repo'']"
proof -
  let ?W = "worldOf exampleCommands (Some 1)"
  let ?G = "new_Git exampleConfiguration"
  have gp: "fst (getGitPathOrThrow ?W ?G) = Inr ''/usr/bin/git''"
    by code_simp
  have i: "indexOf (CHR ''/'') ''origin/main'' = Some 6"
    by code_simp
  have after: "getMergeBase ?W ''origin/main'' False (afterFetch ?W ''/usr/bin/git'' ''origin/main'' 6 ?G)
     = (Inr ''0123abc'',
        (resolved ?W ?G)\<lparr>events :=
          [ConsoleLog ''Checking for updates to origin/main...'',
           SpawnSync ''/usr/bin/git'' [''fetch'', ''origin'', ''main''],
           TerminalWarningLine (fetchWarning ''origin/main''),
           Exec ''/usr/bin/git'' (mergeBaseArgs ''origin/main'') ''/repo'']\<rparr>)"
    by code_simp
  have "getMergeBase ?W ''origin/main'' True ?G
        = getMergeBase ?W ''origin/main'' False (afterFetch ?W ''/usr/bin/git'' ''origin/main'' 6 ?G)"
    using fetch_best_effort[OF gp, of "''origin/main''"] unfolding i by simp
  then show ?thesis
    unfolding after using gp by simp
qed

text \<open>
  C3 as stated fails for the remote branch name \<^verbatim>\<open>main\<close>: without the fetch both
  methods return, with the fetch both end with the error of the fetch step.
\<close>

theorem fetch_aborts_without_slash:
  "fst (getMergeBase (worldOf exampleCommands None) ''main'' False (new_Git exampleConfiguration))
     = Inr ''0123abc''
   \<and> fst (getMergeBase (worldOf exampleCommands None) ''main'' True (new_Git exampleConfiguration))
     = Inl (Error (''Unexpected git remote branch format: main. ''
                   @ ''Expected branch to be in the <remote>/<branch name> format.''))
   \<and> fst (getChangedFiles (worldOf exampleCommands None) ''main'' True None
            (new_Git exampleConfiguration)) = Inr [''apps/a/new.ts'']
   \<and> fst (getChangedFiles (worldOf exampleCommands None) ''main'' False None
            (new_Git exampleConfiguration))
     = Inl (Error (''Unexpected git remote branch format: main. ''
                   @ ''Expected branch to be in the <remote>/<branch name> format.''))"
  by code_simp

lemma split_js_not_Nil [simp]: "split_js c s \<noteq> []"
  by (induction s) (auto split: list.splits)

lemma split_js_snoc:
  "split_js d (s @ [c]) =
     (if c = d then split_js d s @ [[]]
      else butlast (split_js d s) @ [last (split_js d s) @ [c]])"
proof (induction s)
  case Nil
  show ?case by simp
next
  case (Cons x s)
  obtain w ws where s: "split_js d s = w # ws"
    by (cases "split_js d s") auto
  show ?case
  proof (cases "x = d")
    case True
    then show ?thesis using Cons s by simp
  next
    case False
    then show ?thesis
      using Cons s by (cases ws) (auto split: list.splits if_splits)
  qed
qed

lemma trim_Nil [simp]: "trim [] = []"
  by (simp add: trim_def)

lemma trim_Cons_ws: "isWhiteSpace c \<Longrightarrow> trim (c # w) = trim w"
  by (simp add: trim_def)

lemma trim_snoc_ws: "isWhiteSpace c \<Longrightarrow> trim (w @ [c]) = trim w"
proof (cases "\<forall>x\<in>set w. isWhiteSpace x")
  case True
  assume c: "isWhiteSpace c"
  have 1: "dropWhile isWhiteSpace w = []"
    by (rule dropWhile_eq_Nil_conv[THEN iffD2]) (use True in auto)
  have 2: "dropWhile isWhiteSpace (w @ [c]) = []"
    by (rule dropWhile_eq_Nil_conv[THEN iffD2]) (use c True in auto)
  show ?thesis
    unfolding trim_def 1 2 ..
next
  case False
  assume c: "isWhiteSpace c"
  from False have "dropWhile isWhiteSpace (w @ [c]) = dropWhile isWhiteSpace w @ [c]"
    by (auto simp: dropWhile_append)
  with c show ?thesis
    by (simp add: trim_def)
qed

lemma isWhiteSpace_newline [simp]: "isWhiteSpace (CHR 0x0A)"
  by (simp add: isWhiteSpace_def)

lemma trimmedLines_Cons_ws: "isWhiteSpace c \<Longrightarrow> trimmedLines (c # s) = trimmedLines s"
  by (cases "split_js (CHR 0x0A) s") (auto simp: trimmedLines_def trim_Cons_ws)

lemma nonblank_butlast_last:
  "xs \<noteq> [] \<Longrightarrow>
   filter (\<lambda>l. l \<noteq> []) (map trim xs)
   = filter (\<lambda>l. l \<noteq> []) (map trim (butlast xs)) @ filter (\<lambda>l. l \<noteq> []) [trim (last xs)]"
proof -
  assume "xs \<noteq> []"
  then have "map trim xs = map trim (butlast xs) @ [trim (last xs)]"
    by (metis append_butlast_last_id list.simps(8,9) map_append)
  then show ?thesis
    by (simp only: filter_append)
qed

lemma trimmedLines_snoc_ws: "isWhiteSpace c \<Longrightarrow> trimmedLines (s @ [c]) = trimmedLines s"
  using nonblank_butlast_last[of "split_js (CHR 0x0A) s"]
  by (simp add: trimmedLines_def split_js_snoc trim_snoc_ws)

lemma trimmedLines_dropWhile: "trimmedLines (dropWhile isWhiteSpace s) = trimmedLines s"
  by (induction s) (simp_all add: trimmedLines_Cons_ws)

lemma trimmedLines_dropWhile_end:
  "trimmedLines (rev (dropWhile isWhiteSpace (rev s))) = trimmedLines s"
  by (induction s rule: rev_induct) (simp_all add: trimmedLines_snoc_ws)

lemma trimmedLines_trim: "trimmedLines (trim s) = trimmedLines s"
  by (simp add: trim_def trimmedLines_dropWhile_end trimmedLines_dropWhile)

lemma map_trim_filter:
  "map trim (filter (\<lambda>c. trim c \<noteq> []) xs) = filter (\<lambda>l. l \<noteq> []) (map trim xs)"
  by (induction xs) simp_all

lemma uncommitted_once_trimmed:
  "map trim (filter (\<lambda>c. length (trim c) > 0)
               (split_js (CHR 0x0A) (trim a) @ split_js (CHR 0x0A) (trim b)))
   = trimmedLines a @ trimmedLines b"
  using trimmedLines_trim[of a] trimmedLines_trim[of b]
  by (simp add: map_trim_filter trimmedLines_def)

lemma getUncommittedChanges_present:
  assumes gp: "fst (getGitPathOrThrow w g) = Inr gp"
      and a: "executeCommandAndCaptureOutput w gp untrackedArgs
                (rushJsonFolder (rushConfiguration g)) = Inr a"
      and b: "executeCommandAndCaptureOutput w gp diffOnHEADArgs
                (rushJsonFolder (rushConfiguration g)) = Inr b"
  shows "getUncommittedChanges w g =
     (Inr (filter (\<lambda>change. length (trim change) > 0)
             (split_js (CHR 0x0A) (trim a) @ split_js (CHR 0x0A) (trim b))),
      (resolved w g)\<lparr>events := events g
         @ [Exec gp untrackedArgs (rushJsonFolder (rushConfiguration g)),
            Exec gp diffOnHEADArgs (rushJsonFolder (rushConfiguration g))]\<rparr>)"
proof -
  have gp1: "getGitPathOrThrow w g = (Inr gp, resolved w g)"
    using gp by (rule getGitPathOrThrow_Inr)
  have gp2: "getGitPathOrThrow w ((resolved w g)\<lparr>events := es\<rparr>)
             = (Inr gp, (resolved w g)\<lparr>events := es\<rparr>)" for es
    using gp getGitPathOrThrow_Inr[of w "(resolved w g)\<lparr>events := es\<rparr>" gp] by simp
  show ?thesis
    using a b
    by (simp add: getUncommittedChanges_def priv_getUntrackedChanges_def priv_getDiffOnHEAD_def
          bindM_def gp1 gp2 priv_execute_None returnM_def untrackedArgs_def diffOnHEADArgs_def)
qed

text \<open>
  C6 (as amended). With Git present and both queries succeeding, with outputs \<open>a\<close>
  (untracked files) and \<open>b\<close> (diff against HEAD): \<^verbatim>\<open>getUncommittedChanges\<close> returns
  the lines of the trimmed \<open>a\<close> followed by the lines of the trimmed \<open>b\<close>, without
  the entries that are blank. Each output is trimmed as a whole, not line by line: the
  entries, once trimmed, are the trimmed non-blank lines of \<open>a\<close> and of \<open>b\<close> in
  order, but an entry is returned with the white space its line has. When both
  outputs are empty, the result is empty.
\<close>

theorem getUncommittedChanges_lines:
  assumes "fst (getGitPathOrThrow w g) = Inr gp"
      and "executeCommandAndCaptureOutput w gp untrackedArgs
             (rushJsonFolder (rushConfiguration g)) = Inr a"
      and "executeCommandAndCaptureOutput w gp diffOnHEADArgs
             (rushJsonFolder (rushConfiguration g)) = Inr b"
  shows "fst (getUncommittedChanges w g)
         = Inr (filter (\<lambda>change. length (trim change) > 0)
                  (split_js (CHR 0x0A) (trim a) @ split_js (CHR 0x0A) (trim b)))
       \<and> map trim (filter (\<lambda>change. length (trim change) > 0)
                      (split_js (CHR 0x0A) (trim a) @ split_js (CHR 0x0A) (trim b)))
         = trimmedLines a @ trimmedLines b
       \<and> (a = [] \<and> b = [] \<longrightarrow> fst (getUncommittedChanges w g) = Inr [])"
proof -
  note r = getUncommittedChanges_present[OF assms]
  have "map trim (filter (\<lambda>change. length (trim change) > 0)
                      (split_js (CHR 0x0A) (trim a) @ split_js (CHR 0x0A) (trim b)))
         = trimmedLines a @ trimmedLines b"
    using uncommitted_once_trimmed[of a b] by simp
  then show ?thesis
    by (simp add: r)
qed

theorem getUncommittedChanges_lines_witness:
  "fst (getGitPathOrThrow (worldOf exampleCommands (Some 0)) (new_Git exampleConfiguration))
     = Inr ''/usr/bin/git''
   \<and> fst (getUncommittedChanges (worldOf exampleCommands (Some 0)) (new_Git exampleConfiguration))
     = Inr [''a '', ''b'']
   \<and> map trim [''a '', ''b''] = trimmedLines (outputLines [''a '', ''b'']) @ trimmedLines []"
proof -
  let ?W = "worldOf exampleCommands (Some 0)"
  let ?G = "new_Git exampleConfiguration"
  have gp: "fst (getGitPathOrThrow ?W ?G) = Inr ''/usr/bin/git''"
    by code_simp
  have a: "executeCommandAndCaptureOutput ?W ''/usr/bin/git'' untrackedArgs
             (rushJsonFolder (rushConfiguration ?G)) = Inr (outputLines [''a '', ''b''])"
    by code_simp
  have b: "executeCommandAndCaptureOutput ?W ''/usr/bin/git'' diffOnHEADArgs
             (rushJsonFolder (rushConfiguration ?G)) = Inr []"
    by code_simp
  have v: "filter (\<lambda>change. length (trim change) > 0)
             (split_js (CHR 0x0A) (trim (outputLines [''a '', ''b'']))
              @ split_js (CHR 0x0A) (trim [])) = [''a '', ''b'']"
    by code_simp
  show ?thesis
    using getUncommittedChanges_lines[OF gp a b] gp unfolding v by simp
qed

text \<open>
  C6 as stated fails when a line has white space of its own: for the untracked files
  \<^verbatim>\<open>a \<close> (with a space at its end) and \<^verbatim>\<open>b\<close>, the first entry returned is not
  trimmed.
\<close>

theorem getUncommittedChanges_not_trimmed:
  "fst (getUncommittedChanges (worldOf exampleCommands (Some 0)) (new_Git exampleConfiguration))
     = Inr [''a '', ''b'']
   \<and> trimmedLines (outputLines [''a '', ''b'']) @ trimmedLines [] = [''a'', ''b'']
   \<and> fst (getUncommittedChanges (worldOf exampleCommands (Some 0)) (new_Git exampleConfiguration))
     \<noteq> Inr (trimmedLines (outputLines [''a '', ''b'']) @ trimmedLines [])"
  by code_simp












text \<open>
  C4. The method trims its argument into \<^verbatim>\<open>result\<close>, but runs the SCP-like pattern
  on the argument itself. On the SCP-like spelling of a URL with a newline after it the
  pattern matches the trimmed string and not the argument: the rewrite is skipped and
  the spelling is returned as it is, without the suffix, while the \<^verbatim>\<open>https://\<close> and
  \<^verbatim>\<open>ssh://\<close> spellings of the same host and path with the same newline, and the
  SCP-like spelling without it, are all normalized to the same string.
\<close>

theorem scp_pattern_on_untrimmed_argument:
  "scpLikeSyntaxMatch (trim (''git@github.com:Org/Repo.git'' @ [CHR 0x0A]))
     = Some (''github.com'', ''Org/Repo.git'')
   \<and> scpLikeSyntaxMatch (''git@github.com:Org/Repo.git'' @ [CHR 0x0A]) = None
   \<and> normalizeGitUrlForComparison nodeUrlParse (''git@github.com:Org/Repo.git'' @ [CHR 0x0A])
     = Inr ''git@github.com:Org/Repo''
   \<and> normalizeGitUrlForComparison nodeUrlParse (''https://github.com/Org/Repo.git'' @ [CHR 0x0A])
     = Inr ''https://github.com/Org/Repo''
   \<and> normalizeGitUrlForComparison nodeUrlParse (''ssh://github.com/Org/Repo.git'' @ [CHR 0x0A])
     = Inr ''https://github.com/Org/Repo''
   \<and> normalizeGitUrlForComparison nodeUrlParse ''git@github.com:Org/Repo.git''
     = Inr ''https://github.com/Org/Repo''"
  by code_simp



text \<open>
  C1. The last step \<^verbatim>\<open>result.replace(/.git\/?$/, '')\<close> removes \<^verbatim>\<open>.git\<close> and
  \<^verbatim>\<open>.git/\<close> at the end (\<open>stripGitSuffix_dot_git\<close>), but its dot is not escaped: the
  step also removes \<^verbatim>\<open>egit\<close> from a string that does not end in \<^verbatim>\<open>.git\<close>, here
  from the URL of the repository \<^verbatim>\<open>nodegit\<close>.
\<close>

theorem stripGitSuffix_removes_more:
  "stripGitSuffix ''https://github.com/nodegit/nodegit'' = ''https://github.com/nodegit/nod''
   \<and> normalizeGitUrlForComparison nodeUrlParse ''https://github.com/nodegit/nodegit''
     = Inr ''https://github.com/nodegit/nod''
   \<and> normalizeGitUrlForComparison nodeUrlParse ''https://github.com/nodegit/nodegit.git''
     = Inr ''https://github.com/nodegit/nodegit''"
  by code_simp









































end
